theory Spec2Isabelle
  imports Complex_Main
begin

section \<open>Python values, exceptions and expression trees\<close>

text \<open>
  The development embeds the two control-volume classes of
  \<^verbatim>\<open>idaes/core/control_volume0d.py\<close> and \<^verbatim>\<open>idaes/core/control_volume1d.py\<close>.
  Arguments that the source validates at run time are Python values; the ones the
  validation code can tell apart are kept.
\<close>

datatype FlowDirection = forward | backward

datatype MaterialBalanceType = componentPhase | componentTotal | elementTotal

datatype MaterialFlowBasis = molar | mass | other

datatype DistributedVars = variant | uniform

datatype pyval =
    PyNone
  | PyBool bool
  | PyInt int
  | PyStr string
  | PyFlowDirection FlowDirection

text \<open>
  Python's \<^verbatim>\<open>==\<close> on these values: \<^verbatim>\<open>bool\<close> is a subclass of \<^verbatim>\<open>int\<close>, so
  \<^verbatim>\<open>True == 1\<close> and \<^verbatim>\<open>False == 0\<close>; values of unrelated types are unequal.
\<close>

fun py_eq :: "pyval \<Rightarrow> pyval \<Rightarrow> bool" where
  "py_eq PyNone PyNone = True"
| "py_eq (PyBool a) (PyBool b) = (a = b)"
| "py_eq (PyBool a) (PyInt n) = (n = (if a then 1 else 0))"
| "py_eq (PyInt n) (PyBool a) = (n = (if a then 1 else 0))"
| "py_eq (PyInt m) (PyInt n) = (m = n)"
| "py_eq (PyStr s) (PyStr t) = (s = t)"
| "py_eq (PyFlowDirection d) (PyFlowDirection e) = (d = e)"
| "py_eq _ _ = False"

text \<open>\<^verbatim>\<open>x in [a, b, ...]\<close>: some element of the list is equal to \<open>x\<close>.\<close>

fun py_in :: "pyval \<Rightarrow> pyval list \<Rightarrow> bool" where
  "py_in x [] = False"
| "py_in x (y # ys) = (py_eq y x \<or> py_in x ys)"

text \<open>The truth value Python gives a value in \<^verbatim>\<open>if v:\<close> and \<^verbatim>\<open>not v\<close>.\<close>

fun py_truth :: "pyval \<Rightarrow> bool" where
  "py_truth PyNone = False"
| "py_truth (PyBool b) = b"
| "py_truth (PyInt n) = (n \<noteq> 0)"
| "py_truth (PyStr s) = (s \<noteq> [])"
| "py_truth (PyFlowDirection d) = True"

text \<open>
  The exceptions the two classes raise or let through. \<open>Foreign a\<close> is an exception
  raised inside a routine of a property or reaction package; \<open>a\<close> tells whether it is an
  instance of \<^verbatim>\<open>AttributeError\<close>, the only thing a handler of the control volume asks.
\<close>

datatype error =
    ConfigurationError
  | PropertyPackageError
  | PropertyNotSupportedError
  | BalanceTypeNotSupportedError
  | BurntToast
  | AttributeError
  | KeyError
  | ValueError
  | PyException
  | Foreign bool

text \<open>
  A method mutates the control volume in place, so a raised exception leaves behind the
  object as it was at the \<^verbatim>\<open>raise\<close>: an outcome is either the exception together with
  that object, or the object after a normal return.
\<close>

type_synonym 's outcome = "(error \<times> 's) + 's"

definition and_then :: "'s outcome \<Rightarrow> ('s \<Rightarrow> 's outcome) \<Rightarrow> 's outcome" where
  "and_then r f = (case r of Inl x \<Rightarrow> Inl x | Inr s \<Rightarrow> f s)"

text \<open>
  Index keys: a time or length point, or the name of a phase, component, element or
  reaction. An expression tree records the operators of an equation as the source writes
  them. \<open>ERef n i\<close> is the component \<open>n\<close> of the control volume at index \<open>i\<close>;
  \<open>EExt n i\<close> is a quantity supplied from outside the class (a state-block getter, a
  custom term callback, the base class's reaction-rate conversion).
\<close>

datatype key = Pt real | Nm string

datatype expr =
    ELit real
  | ERef string "key list"
  | EExt string "key list"
  | EAdd expr expr
  | ESub expr expr
  | EMul expr expr
  | EDiv expr expr
  | ENeg expr

text \<open>Python's \<^verbatim>\<open>sum(...)\<close> adds the items to the start value 0, left to right.\<close>

definition py_sum :: "expr list \<Rightarrow> expr" where
  "py_sum es = foldl EAdd (ELit 0) es"

text \<open>The value of an expression tree under a valuation of its atoms.\<close>

fun eval :: "(string \<Rightarrow> key list \<Rightarrow> real) \<Rightarrow> (string \<Rightarrow> key list \<Rightarrow> real) \<Rightarrow> expr \<Rightarrow> real" where
  "eval \<rho> \<xi> (ELit c) = c"
| "eval \<rho> \<xi> (ERef n i) = \<rho> n i"
| "eval \<rho> \<xi> (EExt n i) = \<xi> n i"
| "eval \<rho> \<xi> (EAdd a b) = eval \<rho> \<xi> a + eval \<rho> \<xi> b"
| "eval \<rho> \<xi> (ESub a b) = eval \<rho> \<xi> a - eval \<rho> \<xi> b"
| "eval \<rho> \<xi> (EMul a b) = eval \<rho> \<xi> a * eval \<rho> \<xi> b"
| "eval \<rho> \<xi> (EDiv a b) = eval \<rho> \<xi> a / eval \<rho> \<xi> b"
| "eval \<rho> \<xi> (ENeg a) = - eval \<rho> \<xi> a"

section \<open>Packages, blocks and the control volume\<close>

text \<open>
  A property package as the control volume reads it. An optional attribute (one the
  source tests with \<^verbatim>\<open>hasattr\<close>) is \<open>None\<close> when absent.
  \<open>phase_component_set\<close> is what \<^verbatim>\<open>get_phase_component_set()\<close> returns;
  \<open>phase_equilibrium_list\<close> maps a reaction index to \<open>(component, (phase_a, phase_b))\<close>.
  \<open>material_flow_basis\<close> is what a state block of the package answers to
  \<^verbatim>\<open>get_material_flow_basis()\<close>, and \<open>mw_supported\<close> tells whether its state blocks
  have the attribute \<^verbatim>\<open>mw\<close>.
\<close>

record property_package =
  state_block_class :: bool
  phase_list :: "string list"
  component_list :: "string list"
  phase_component_set :: "(string \<times> string) list"
  phase_equilibrium_idx :: "string list option"
  phase_equilibrium_list :: "string \<rightharpoonup> (string \<times> (string \<times> string))"
  element_list :: "string list option"
  material_flow_basis :: MaterialFlowBasis
  mw_supported :: bool

record reaction_package =
  reaction_block_class :: bool
  rate_reaction_idx :: "string list option"
  equilibrium_reaction_idx :: "string list option"

text \<open>
  The construction arguments a state block or reaction block keeps in its \<^verbatim>\<open>config\<close>:
  the keys the control volume sets, and the package arguments passed through.
\<close>

record sb_config =
  sb_has_phase_equilibrium :: pyval
  sb_defined_state :: bool
  sb_package_args :: "(string \<times> pyval) list"

record rb_config =
  rb_has_equilibrium :: pyval
  rb_package_args :: "(string \<times> pyval) list"

type_synonym sblock = "(key list \<times> sb_config) list"
type_synonym rblock = "(key list \<times> rb_config) list"

text \<open>
  The modelling components a method attaches to the control volume. A variable keeps its
  index set and its \<^verbatim>\<open>initialize\<close> value; a constraint keeps one equation
  \<open>(index, lhs, rhs)\<close> for every index at which its rule did not return
  \<^verbatim>\<open>Constraint.Skip\<close>. The \<^verbatim>\<open>doc\<close> strings, and the unit names that only feed
  them, are left out.
\<close>

datatype component =
    Var "key list list" "real option"
  | DerivativeVar string string
  | Param real
  | Expression "(key list \<times> expr) list"
  | Constraint "(key list \<times> expr \<times> expr) list"

text \<open>
  What both classes inherit: the configuration block, the flowsheet's time set, and the
  attribute dictionary (\<^verbatim>\<open>hasattr(self, n)\<close> is \<open>attrs self n \<noteq> None\<close>).
\<close>

record cv_base =
  dynamic :: bool
  has_holdup :: bool
  property_package :: property_package
  property_package_args :: "(string \<times> pyval) list"
  reaction_package :: "reaction_package option"
  reaction_package_args :: "(string \<times> pyval) list"
  time :: "real list"
  attrs :: "string \<rightharpoonup> component"

record cv0 = cv_base +
  properties_in :: "sblock option"
  properties_out :: "sblock option"
  reactions :: "rblock option"

record cv1 = cv_base +
  transformation_scheme :: "string option"
  area_definition :: DistributedVars
  length_domain :: "real list option"
  flow_direction :: "FlowDirection option"
  flow_direction_term :: "int option"
  properties :: "sblock option"
  reactions1 :: "rblock option"

text \<open>
  Assigning a component to an attribute. Theorems below are about what a call adds, and
  are stated for calls that return; they do not depend on what the modelling library
  does when a name is assigned twice.
\<close>

definition setattr :: "'a cv_base_scheme \<Rightarrow> string \<Rightarrow> component \<Rightarrow> 'a cv_base_scheme" where
  "setattr self n c = self\<lparr>attrs := (attrs self)(n \<mapsto> c)\<rparr>"

definition hasattr :: "'a cv_base_scheme \<Rightarrow> string \<Rightarrow> bool" where
  "hasattr self n = (attrs self n \<noteq> None)"

section \<open>State blocks and reaction blocks\<close>

text \<open>
  \<^verbatim>\<open>ControlVolume0DBlockData.add_state_blocks\<close>. The \<^verbatim>\<open>try\<close> block turns a missing
  \<^verbatim>\<open>state_block_class\<close> into \<^verbatim>\<open>PropertyPackageError\<close>; the package's class is
  taken to build one block per time point that stores the arguments it is given.
\<close>

definition build_state_blocks0 :: "cv0 \<Rightarrow> sb_config \<Rightarrow> cv0 outcome" where
  "build_state_blocks0 self tmp_dict =
     (if \<not> state_block_class (property_package self) then Inl (PropertyPackageError, self)
      else
        (let tmp_dict_2 = tmp_dict\<lparr>sb_defined_state := \<not> sb_defined_state tmp_dict\<rparr> in
         Inr (self\<lparr>properties_in := Some (map (\<lambda>t. ([Pt t], tmp_dict)) (time self)),
                   properties_out := Some (map (\<lambda>t. ([Pt t], tmp_dict_2)) (time self))\<rparr>)))"

definition add_state_blocks0 :: "cv0 \<Rightarrow> pyval \<Rightarrow> pyval \<Rightarrow> cv0 outcome" where
  "add_state_blocks0 self information_flow has_phase_equilibrium =
     (if has_phase_equilibrium = PyNone then Inl (ConfigurationError, self)
      else if \<not> py_in has_phase_equilibrium [PyBool True, PyBool False]
        then Inl (ConfigurationError, self)
      else
        (let tmp_dict = \<lparr>sb_has_phase_equilibrium = has_phase_equilibrium,
                         sb_defined_state = True,
                         sb_package_args = property_package_args self\<rparr> in
         if py_eq information_flow (PyFlowDirection forward)
           then build_state_blocks0 self (tmp_dict\<lparr>sb_defined_state := True\<rparr>)
         else if py_eq information_flow (PyFlowDirection backward)
           then build_state_blocks0 self (tmp_dict\<lparr>sb_defined_state := False\<rparr>)
         else Inl (ConfigurationError, self)))"

text \<open>
  \<^verbatim>\<open>ControlVolume0DBlockData.add_reaction_blocks\<close>. Reading
  \<^verbatim>\<open>self.properties_out\<close> is outside the \<^verbatim>\<open>try\<close>; a missing reaction package or
  \<^verbatim>\<open>reaction_block_class\<close> is inside it.
\<close>

definition add_reaction_blocks0 :: "cv0 \<Rightarrow> pyval \<Rightarrow> cv0 outcome" where
  "add_reaction_blocks0 self has_equilibrium =
     (if has_equilibrium = PyNone then Inl (ConfigurationError, self)
      else if \<not> py_in has_equilibrium [PyBool True, PyBool False]
        then Inl (ConfigurationError, self)
      else
        (case properties_out self of
           None \<Rightarrow> Inl (AttributeError, self)
         | Some sb \<Rightarrow>
             (let tmp_dict = \<lparr>rb_has_equilibrium = has_equilibrium,
                              rb_package_args = reaction_package_args self\<rparr> in
              case reaction_package self of
                None \<Rightarrow> Inl (PropertyPackageError, self)
              | Some rp \<Rightarrow>
                  if \<not> reaction_block_class rp then Inl (PropertyPackageError, self)
                  else Inr (self\<lparr>reactions :=
                              Some (map (\<lambda>t. ([Pt t], tmp_dict)) (time self))\<rparr>))))"

text \<open>
  \<^verbatim>\<open>ControlVolume1DBlockData.add_state_blocks\<close>: one block per time and length point;
  \<^verbatim>\<open>idx_map\<close> gives the source point the defined-state arguments \<open>d0\<close>, every other
  point \<open>d1\<close>. Nothing is caught here, so a missing attribute is an \<^verbatim>\<open>AttributeError\<close>.
\<close>

definition idx_map :: "pyval \<Rightarrow> real list \<Rightarrow> real \<times> real \<Rightarrow> nat" where
  "idx_map information_flow ld i =
     (if py_eq information_flow (PyFlowDirection forward) \<and> snd i = hd ld then 0
      else if py_eq information_flow (PyFlowDirection backward) \<and> snd i = last ld then 0
      else 1)"

definition add_state_blocks1 :: "cv1 \<Rightarrow> pyval \<Rightarrow> pyval \<Rightarrow> cv1 outcome" where
  "add_state_blocks1 self information_flow has_phase_equilibrium =
     (if has_phase_equilibrium = PyNone then Inl (ConfigurationError, self)
      else if \<not> py_in has_phase_equilibrium [PyBool True, PyBool False]
        then Inl (ConfigurationError, self)
      else
        (let d0 = \<lparr>sb_has_phase_equilibrium = has_phase_equilibrium,
                   sb_defined_state = True,
                   sb_package_args = property_package_args self\<rparr>;
             d1 = d0\<lparr>sb_defined_state := False\<rparr> in
         if \<not> state_block_class (property_package self) then Inl (AttributeError, self)
         else
           (case length_domain self of
              None \<Rightarrow> Inl (AttributeError, self)
            | Some ld \<Rightarrow>
                Inr (self\<lparr>properties := Some (concat (map (\<lambda>t. map (\<lambda>x.
                       ([Pt t, Pt x],
                        if idx_map information_flow ld (t, x) = 0 then d0 else d1)) ld)
                       (time self)))\<rparr>))))"

text \<open>\<^verbatim>\<open>ControlVolume1DBlockData.add_reaction_blocks\<close>.\<close>

definition add_reaction_blocks1 :: "cv1 \<Rightarrow> pyval \<Rightarrow> cv1 outcome" where
  "add_reaction_blocks1 self has_equilibrium =
     (if has_equilibrium = PyNone then Inl (ConfigurationError, self)
      else if \<not> py_in has_equilibrium [PyBool True, PyBool False]
        then Inl (ConfigurationError, self)
      else
        (case properties self of
           None \<Rightarrow> Inl (AttributeError, self)
         | Some sb \<Rightarrow>
             (let tmp_dict = \<lparr>rb_has_equilibrium = has_equilibrium,
                              rb_package_args = reaction_package_args self\<rparr> in
              case reaction_package self of
                None \<Rightarrow> Inl (AttributeError, self)
              | Some rp \<Rightarrow>
                  if \<not> reaction_block_class rp then Inl (AttributeError, self)
                  else
                    (case length_domain self of
                       None \<Rightarrow> Inl (AttributeError, self)
                     | Some ld \<Rightarrow>
                         Inr (self\<lparr>reactions1 := Some (concat (map (\<lambda>t. map (\<lambda>x.
                                ([Pt t, Pt x], tmp_dict)) ld) (time self)))\<rparr>)))))"

section \<open>Balance types that are not supported\<close>

text \<open>
  Each of these methods takes \<^verbatim>\<open>*args, **kwargs\<close> and consists of one \<^verbatim>\<open>raise\<close>.
\<close>

definition add_total_material_balances0 ::
    "cv0 \<Rightarrow> pyval list \<Rightarrow> (string \<times> pyval) list \<Rightarrow> cv0 outcome" where
  "add_total_material_balances0 self args kwargs = Inl (BalanceTypeNotSupportedError, self)"

definition add_phase_enthalpy_balances0 ::
    "cv0 \<Rightarrow> pyval list \<Rightarrow> (string \<times> pyval) list \<Rightarrow> cv0 outcome" where
  "add_phase_enthalpy_balances0 self args kwargs = Inl (BalanceTypeNotSupportedError, self)"

definition add_phase_energy_balances0 ::
    "cv0 \<Rightarrow> pyval list \<Rightarrow> (string \<times> pyval) list \<Rightarrow> cv0 outcome" where
  "add_phase_energy_balances0 self args kwargs = Inl (BalanceTypeNotSupportedError, self)"

definition add_total_energy_balances0 ::
    "cv0 \<Rightarrow> pyval list \<Rightarrow> (string \<times> pyval) list \<Rightarrow> cv0 outcome" where
  "add_total_energy_balances0 self args kwargs = Inl (BalanceTypeNotSupportedError, self)"

definition add_phase_pressure_balances0 ::
    "cv0 \<Rightarrow> pyval list \<Rightarrow> (string \<times> pyval) list \<Rightarrow> cv0 outcome" where
  "add_phase_pressure_balances0 self args kwargs = Inl (BalanceTypeNotSupportedError, self)"

definition add_phase_momentum_balances0 ::
    "cv0 \<Rightarrow> pyval list \<Rightarrow> (string \<times> pyval) list \<Rightarrow> cv0 outcome" where
  "add_phase_momentum_balances0 self args kwargs = Inl (BalanceTypeNotSupportedError, self)"

definition add_total_momentum_balances0 ::
    "cv0 \<Rightarrow> pyval list \<Rightarrow> (string \<times> pyval) list \<Rightarrow> cv0 outcome" where
  "add_total_momentum_balances0 self args kwargs = Inl (BalanceTypeNotSupportedError, self)"

definition add_total_material_balances1 ::
    "cv1 \<Rightarrow> pyval list \<Rightarrow> (string \<times> pyval) list \<Rightarrow> cv1 outcome" where
  "add_total_material_balances1 self args kwargs = Inl (BalanceTypeNotSupportedError, self)"

definition add_phase_enthalpy_balances1 ::
    "cv1 \<Rightarrow> pyval list \<Rightarrow> (string \<times> pyval) list \<Rightarrow> cv1 outcome" where
  "add_phase_enthalpy_balances1 self args kwargs = Inl (BalanceTypeNotSupportedError, self)"

definition add_phase_energy_balances1 ::
    "cv1 \<Rightarrow> pyval list \<Rightarrow> (string \<times> pyval) list \<Rightarrow> cv1 outcome" where
  "add_phase_energy_balances1 self args kwargs = Inl (BalanceTypeNotSupportedError, self)"

definition add_total_energy_balances1 ::
    "cv1 \<Rightarrow> pyval list \<Rightarrow> (string \<times> pyval) list \<Rightarrow> cv1 outcome" where
  "add_total_energy_balances1 self args kwargs = Inl (BalanceTypeNotSupportedError, self)"

definition add_phase_pressure_balances1 ::
    "cv1 \<Rightarrow> pyval list \<Rightarrow> (string \<times> pyval) list \<Rightarrow> cv1 outcome" where
  "add_phase_pressure_balances1 self args kwargs = Inl (BalanceTypeNotSupportedError, self)"

definition add_phase_momentum_balances1 ::
    "cv1 \<Rightarrow> pyval list \<Rightarrow> (string \<times> pyval) list \<Rightarrow> cv1 outcome" where
  "add_phase_momentum_balances1 self args kwargs = Inl (BalanceTypeNotSupportedError, self)"

definition add_total_momentum_balances1 ::
    "cv1 \<Rightarrow> pyval list \<Rightarrow> (string \<times> pyval) list \<Rightarrow> cv1 outcome" where
  "add_total_momentum_balances1 self args kwargs = Inl (BalanceTypeNotSupportedError, self)"

section \<open>Attaching components\<close>

text \<open>
  A constraint is built at once from its rule: the rule is called on every index, in
  order; an index at which it returns \<^verbatim>\<open>Constraint.Skip\<close> gets no equation, and an
  exception raised by the rule ends the construction.
\<close>

datatype rule_result = Skip | Eqn expr expr

fun build_rows ::
    "'i list \<Rightarrow> ('i \<Rightarrow> key list) \<Rightarrow> ('i \<Rightarrow> error + rule_result) \<Rightarrow>
     error + (key list \<times> expr \<times> expr) list" where
  "build_rows [] kf rule = Inr []"
| "build_rows (i # js) kf rule =
     (case rule i of
        Inl e \<Rightarrow> Inl e
      | Inr r \<Rightarrow>
          (case build_rows js kf rule of
             Inl e \<Rightarrow> Inl e
           | Inr rows \<Rightarrow> Inr (case r of Skip \<Rightarrow> rows | Eqn l rh \<Rightarrow> (kf i, l, rh) # rows)))"

definition add_constraint ::
    "'a cv_base_scheme \<Rightarrow> string \<Rightarrow> 'i list \<Rightarrow> ('i \<Rightarrow> key list) \<Rightarrow>
     ('i \<Rightarrow> error + rule_result) \<Rightarrow> 'a cv_base_scheme outcome" where
  "add_constraint self n idx kf rule =
     (case build_rows idx kf rule of
        Inl e \<Rightarrow> Inl (e, self)
      | Inr rows \<Rightarrow> Inr (setattr self n (Constraint rows)))"

fun build_exprs ::
    "'i list \<Rightarrow> ('i \<Rightarrow> key list) \<Rightarrow> ('i \<Rightarrow> error + expr) \<Rightarrow>
     error + (key list \<times> expr) list" where
  "build_exprs [] kf rule = Inr []"
| "build_exprs (i # js) kf rule =
     (case rule i of
        Inl e \<Rightarrow> Inl e
      | Inr x \<Rightarrow>
          (case build_exprs js kf rule of
             Inl e \<Rightarrow> Inl e
           | Inr rows \<Rightarrow> Inr ((kf i, x) # rows)))"

definition add_expression ::
    "'a cv_base_scheme \<Rightarrow> string \<Rightarrow> 'i list \<Rightarrow> ('i \<Rightarrow> key list) \<Rightarrow>
     ('i \<Rightarrow> error + expr) \<Rightarrow> 'a cv_base_scheme outcome" where
  "add_expression self n idx kf rule =
     (case build_exprs idx kf rule of
        Inl e \<Rightarrow> Inl (e, self)
      | Inr rows \<Rightarrow> Inr (setattr self n (Expression rows)))"

definition add_var ::
    "'a cv_base_scheme \<Rightarrow> string \<Rightarrow> key list list \<Rightarrow> real option \<Rightarrow> 'a cv_base_scheme" where
  "add_var self n idx init = setattr self n (Var idx init)"

text \<open>
  \<^verbatim>\<open>self.n = DerivativeVar(self.v, wrt=...)\<close> reads the attribute \<open>v\<close> first.
\<close>

definition add_derivative_var ::
    "'a cv_base_scheme \<Rightarrow> string \<Rightarrow> string \<Rightarrow> string \<Rightarrow> 'a cv_base_scheme outcome" where
  "add_derivative_var self n v wrt =
     (case attrs self v of
        None \<Rightarrow> Inl (AttributeError, self)
      | Some c \<Rightarrow> Inr (setattr self n (DerivativeVar v wrt)))"

text \<open>Index keys of the index sets used below.\<close>

definition k_t :: "real \<Rightarrow> key list" where
  "k_t t = [Pt t]"

definition k_tn :: "real \<times> string \<Rightarrow> key list" where
  "k_tn i = [Pt (fst i), Nm (snd i)]"

definition k_tpj :: "real \<times> string \<times> string \<Rightarrow> key list" where
  "k_tpj i = [Pt (fst i), Nm (fst (snd i)), Nm (snd (snd i))]"

definition k_tx :: "real \<times> real \<Rightarrow> key list" where
  "k_tx i = [Pt (fst i), Pt (snd i)]"

definition k_txn :: "real \<times> real \<times> string \<Rightarrow> key list" where
  "k_txn i = [Pt (fst i), Pt (fst (snd i)), Nm (snd (snd i))]"

definition k_txpj :: "real \<times> real \<times> string \<times> string \<Rightarrow> key list" where
  "k_txpj i = [Pt (fst i), Pt (fst (snd i)), Nm (fst (snd (snd i))), Nm (snd (snd (snd i)))]"

section \<open>Phase fractions\<close>

text \<open>\<^verbatim>\<open>ControlVolume0DBlockData._add_phase_fractions\<close>.\<close>

definition add_phase_fractions0 :: "cv0 \<Rightarrow> cv0" where
  "add_phase_fractions0 self =
     (let pl = phase_list (property_package self) in
      if length pl > 1 then
        (let s1 = add_var self ''phase_fraction''
                    (map k_tn (List.product (time self) pl))
                    (Some (1 / real (length pl))) in
         setattr s1 ''sum_of_phase_fractions''
           (Constraint (map (\<lambda>t. (k_t t, ELit 1,
                          py_sum (map (\<lambda>p. ERef ''phase_fraction'' [Pt t, Nm p]) pl)))
                        (time self))))
      else
        setattr self ''phase_fraction''
          (Expression (map (\<lambda>i. (k_tn i, ELit 1)) (List.product (time self) pl))))"

text \<open>
  \<^verbatim>\<open>ControlVolume1DBlockData._add_phase_fractions\<close>; \<open>ld\<close> is \<^verbatim>\<open>self.length_domain\<close>,
  which every caller has read before.
\<close>

definition add_phase_fractions1 :: "cv1 \<Rightarrow> real list \<Rightarrow> cv1" where
  "add_phase_fractions1 self ld =
     (let pl = phase_list (property_package self) in
      if length pl > 1 then
        (let s1 = add_var self ''phase_fraction''
                    (map k_txn (List.product (time self) (List.product ld pl)))
                    (Some (1 / real (length pl))) in
         setattr s1 ''sum_of_phase_fractions''
           (Constraint (map (\<lambda>i. (k_tx i, ELit 1,
                          py_sum (map (\<lambda>p. ERef ''phase_fraction'' [Pt (fst i), Pt (snd i), Nm p]) pl)))
                        (List.product (time self) ld))))
      else
        setattr self ''phase_fraction''
          (Expression (map (\<lambda>i. (k_txn i, ELit 1))
             (List.product (time self) (List.product ld pl)))))"

section \<open>Terms of the material balances\<close>

text \<open>
  The term functions of \<^verbatim>\<open>_add_material_balance_common\<close>: each returns the variable
  at the index, or the literal 0, as the flag it closes over says. The index is
  \<open>[t, p, j]\<close> in the 0-D class and \<open>[t, x, p, j]\<close> in the 1-D class.
\<close>

definition accumulation_term :: "bool \<Rightarrow> key list \<Rightarrow> expr" where
  "accumulation_term dyn i = (if dyn then ERef ''material_accumulation'' i else ELit 0)"

definition kinetic_term :: "bool \<Rightarrow> key list \<Rightarrow> expr" where
  "kinetic_term has_rate_reactions i =
     (if has_rate_reactions then ERef ''rate_reaction_generation'' i else ELit 0)"

definition equilibrium_term :: "bool \<Rightarrow> key list \<Rightarrow> expr" where
  "equilibrium_term has_equilibrium_reactions i =
     (if has_equilibrium_reactions then ERef ''equilibrium_reaction_generation'' i else ELit 0)"

definition transfer_term :: "bool \<Rightarrow> key list \<Rightarrow> expr" where
  "transfer_term has_mass_transfer i =
     (if has_mass_transfer then ERef ''mass_transfer_term'' i else ELit 0)"

text \<open>
  The loop of \<^verbatim>\<open>phase_equilibrium_term\<close> that fills the dictionary \<^verbatim>\<open>sd\<close>, and the
  items of the sum that follows it. \<open>pt\<close> is the domain point (\<open>[t]\<close> or \<open>[t, x]\<close>).
\<close>

fun sd_loop ::
    "(string \<rightharpoonup> (string \<times> (string \<times> string))) \<Rightarrow> string \<Rightarrow> string \<Rightarrow> string list \<Rightarrow>
     (string \<rightharpoonup> int) \<Rightarrow> error + (string \<rightharpoonup> int)" where
  "sd_loop pel p j [] sd = Inr sd"
| "sd_loop pel p j (r # rs) sd =
     (case pel r of
        None \<Rightarrow> Inl KeyError
      | Some e \<Rightarrow>
          sd_loop pel p j rs
            (sd(r \<mapsto> (if fst e = j
                        then (if fst (snd e) = p then 1
                              else if snd (snd e) = p then - 1
                              else 0)
                        else 0))))"

fun pe_items :: "key list \<Rightarrow> (string \<rightharpoonup> int) \<Rightarrow> string list \<Rightarrow> error + expr list" where
  "pe_items pt sd [] = Inr []"
| "pe_items pt sd (r # rs) =
     (case sd r of
        None \<Rightarrow> Inl KeyError
      | Some v \<Rightarrow>
          (case pe_items pt sd rs of
             Inl e \<Rightarrow> Inl e
           | Inr es \<Rightarrow>
               Inr (EMul (ERef ''phase_equilibrium_generation'' (pt @ [Nm r]))
                         (ELit (of_int v)) # es)))"

definition phase_equilibrium_term ::
    "property_package \<Rightarrow> bool \<Rightarrow> MaterialBalanceType \<Rightarrow> key list \<Rightarrow> string \<Rightarrow> string \<Rightarrow>
     error + expr" where
  "phase_equilibrium_term pp has_phase_equilibrium balance_type pt p j =
     (if has_phase_equilibrium \<and> balance_type = componentPhase then
        (case phase_equilibrium_idx pp of
           None \<Rightarrow> Inl AttributeError
         | Some idx \<Rightarrow>
             (case sd_loop (phase_equilibrium_list pp) p j idx Map.empty of
                Inl e \<Rightarrow> Inl e
              | Inr sd \<Rightarrow>
                  (case pe_items pt sd idx of
                     Inl e \<Rightarrow> Inl e
                   | Inr es \<Rightarrow> Inr (py_sum es))))
      else Inr (ELit 0))"

text \<open>
  The custom terms. \<open>sb\<close> names the state block the rule reads (\<^verbatim>\<open>properties_out\<close>
  or \<^verbatim>\<open>properties\<close>) and \<open>present\<close> tells whether the control volume has it; \<open>i\<close>
  is the index the callback is called with.
\<close>

definition user_term_mol ::
    "property_package \<Rightarrow> (key list \<Rightarrow> expr) option \<Rightarrow> string \<Rightarrow> bool \<Rightarrow> key list \<Rightarrow>
     key list \<Rightarrow> string \<Rightarrow> error + expr" where
  "user_term_mol pp custom_molar_term sb present pt i j =
     (case custom_molar_term of
        None \<Rightarrow> Inr (ELit 0)
      | Some f \<Rightarrow>
          if \<not> present then Inl AttributeError
          else
            (case material_flow_basis pp of
               molar \<Rightarrow> Inr (f i)
             | mass \<Rightarrow>
                 if mw_supported pp then Inr (EMul (f i) (EExt (sb @ ''.mw'') (pt @ [Nm j])))
                 else Inl PropertyNotSupportedError
             | other \<Rightarrow> Inl ConfigurationError))"

definition user_term_mass ::
    "property_package \<Rightarrow> (key list \<Rightarrow> expr) option \<Rightarrow> string \<Rightarrow> bool \<Rightarrow> key list \<Rightarrow>
     key list \<Rightarrow> string \<Rightarrow> error + expr" where
  "user_term_mass pp custom_mass_term sb present pt i j =
     (case custom_mass_term of
        None \<Rightarrow> Inr (ELit 0)
      | Some f \<Rightarrow>
          if \<not> present then Inl AttributeError
          else
            (case material_flow_basis pp of
               mass \<Rightarrow> Inr (f i)
             | molar \<Rightarrow>
                 if mw_supported pp then Inr (EDiv (f i) (EExt (sb @ ''.mw'') (pt @ [Nm j])))
                 else Inl PropertyNotSupportedError
             | other \<Rightarrow> Inl ConfigurationError))"

text \<open>
  \<^verbatim>\<open>b._rxn_rate_conv(...)\<close> is inherited from the base class; its result is an atom
  that records the arguments.
\<close>

definition rxn_rate_conv :: "key list \<Rightarrow> string \<Rightarrow> bool \<Rightarrow> expr" where
  "rxn_rate_conv pt j has_rate_reactions =
     EExt ''_rxn_rate_conv''
       (pt @ [Nm j, Nm (if has_rate_reactions then ''True'' else ''False'')])"

text \<open>The index lists of a reaction package, \<open>None\<close> when \<^verbatim>\<open>hasattr\<close> fails.\<close>

definition rate_idx :: "'a cv_base_scheme \<Rightarrow> string list option" where
  "rate_idx self =
     (case reaction_package self of None \<Rightarrow> None | Some rp \<Rightarrow> rate_reaction_idx rp)"

definition equilibrium_idx :: "'a cv_base_scheme \<Rightarrow> string list option" where
  "equilibrium_idx self =
     (case reaction_package self of None \<Rightarrow> None | Some rp \<Rightarrow> equilibrium_reaction_idx rp)"


section \<open>The 0-D control volume: material balances\<close>

text \<open>
  The loops at the head of \<^verbatim>\<open>ControlVolume0DBlockData._add_material_balance_common\<close>
  that check the configuration of the reaction blocks and of the state blocks.
\<close>

fun check_has_equilibrium :: "rblock \<Rightarrow> key list list \<Rightarrow> error option" where
  "check_has_equilibrium rb [] = None"
| "check_has_equilibrium rb (i # js) =
     (case map_of rb i of
        None \<Rightarrow> Some KeyError
      | Some c \<Rightarrow>
          if rb_has_equilibrium c = PyBool False then Some ConfigurationError
          else check_has_equilibrium rb js)"

fun check_phase_equilibrium :: "sblock \<Rightarrow> key list list \<Rightarrow> error option" where
  "check_phase_equilibrium sb [] = None"
| "check_phase_equilibrium sb (i # js) =
     (case map_of sb i of
        None \<Rightarrow> Some KeyError
      | Some c \<Rightarrow>
          if \<not> py_truth (sb_has_phase_equilibrium c) then Some ConfigurationError
          else check_phase_equilibrium sb js)"

fun check_phase_equilibrium0 ::
    "sblock option \<Rightarrow> sblock option \<Rightarrow> real list \<Rightarrow> error option" where
  "check_phase_equilibrium0 pin pout [] = None"
| "check_phase_equilibrium0 pin pout (t # ts) =
     (case pout of
        None \<Rightarrow> Some AttributeError
      | Some so \<Rightarrow>
          (case check_phase_equilibrium so [[Pt t]] of
             Some e \<Rightarrow> Some e
           | None \<Rightarrow>
               (case pin of
                  None \<Rightarrow> Some AttributeError
                | Some si \<Rightarrow>
                    (case check_phase_equilibrium si [[Pt t]] of
                       Some e \<Rightarrow> Some e
                     | None \<Rightarrow> check_phase_equilibrium0 pin pout ts))))"

text \<open>
  The variables of the material balance (lines 269 to 345): one stage for each statement
  of the source, in its order, each under its flag. \<open>dynamic\<close> and \<open>has_holdup\<close> are read
  once, when the method starts.
\<close>

definition material_balance_vars0 ::
    "cv0 \<Rightarrow> MaterialBalanceType \<Rightarrow> bool \<Rightarrow> bool \<Rightarrow> bool \<Rightarrow> bool \<Rightarrow> cv0 outcome" where
  "material_balance_vars0 self balance_type has_rate_reactions has_equilibrium_reactions
       has_phase_equilibrium has_mass_transfer =
     (let pc_set = phase_component_set (property_package self);
          tpj = map k_tpj (List.product (time self) pc_set) in
      and_then
        (Inr (if has_holdup self then add_var self ''material_holdup'' tpj (Some 1) else self))
        (\<lambda>s1. and_then
          (if dynamic self
           then add_derivative_var s1 ''material_accumulation'' ''material_holdup'' ''time''
           else Inr s1)
          (\<lambda>s2. and_then
            (if has_rate_reactions then
               (if rate_idx self = None then Inl (PropertyNotSupportedError, s2)
                else Inr (add_var s2 ''rate_reaction_generation'' tpj (Some 0)))
             else Inr s2)
            (\<lambda>s3. and_then
              (if has_equilibrium_reactions then
                 (if equilibrium_idx self = None then Inl (PropertyNotSupportedError, s3)
                  else Inr (add_var s3 ''equilibrium_reaction_generation'' tpj (Some 0)))
               else Inr s3)
              (\<lambda>s4. and_then
                (if has_phase_equilibrium \<and> balance_type = componentPhase then
                   (case phase_equilibrium_idx (property_package self) of
                      None \<Rightarrow> Inl (PropertyNotSupportedError, s4)
                    | Some idx \<Rightarrow>
                        Inr (add_var s4 ''phase_equilibrium_generation''
                               (map k_tn (List.product (time self) idx)) (Some 0)))
                 else Inr s4)
                (\<lambda>s5. Inr (if has_mass_transfer
                            then add_var s5 ''mass_transfer_term'' tpj (Some 0)
                            else s5)))))))"

text \<open>The holdup constraint (lines 391 to 402).\<close>

definition material_holdup_calculation0 ::
    "cv0 \<Rightarrow> real \<times> string \<times> string \<Rightarrow> error + rule_result" where
  "material_holdup_calculation0 b i =
     (let t = fst i; p = fst (snd i); j = snd (snd i) in
      if (p, j) \<in> set (phase_component_set (property_package b)) then
        (if properties_out b = None then Inl AttributeError
         else Inr (Eqn (ERef ''material_holdup'' [Pt t, Nm p, Nm j])
                (EMul (EMul (ERef ''volume'' [Pt t]) (ERef ''phase_fraction'' [Pt t, Nm p]))
                      (EExt ''properties_out.get_material_density_terms''
                         [Pt t, Nm p, Nm j]))))
      else Inl ValueError)"

definition material_holdup_step0 :: "bool \<Rightarrow> cv0 \<Rightarrow> cv0 outcome" where
  "material_holdup_step0 holdup self =
     (if holdup then
        and_then
          (Inr (if \<not> hasattr self ''phase_fraction'' then add_phase_fractions0 self else self))
          (\<lambda>s1. add_constraint s1 ''material_holdup_calculation''
                  (List.product (time s1) (phase_component_set (property_package s1)))
                  k_tpj (material_holdup_calculation0 s1))
      else Inr self)"

text \<open>
  Extents of reaction and the stoichiometry constraints (lines 404 to 450). \<open>gen\<close> and
  \<open>ext\<close> name the generation and the extent variable, \<open>st\<close> the package's stoichiometry
  table, \<open>idx\<close> is the list of reactions. The rate rule reads \<^verbatim>\<open>rblock[t]\<close> before
  the sum (\<open>eager\<close>), the equilibrium rule inside it.
\<close>

definition stoichiometry_rule0 ::
    "cv0 \<Rightarrow> string \<Rightarrow> string \<Rightarrow> string \<Rightarrow> string list \<Rightarrow> bool \<Rightarrow>
     real \<times> string \<times> string \<Rightarrow> error + rule_result" where
  "stoichiometry_rule0 b gen ext st idx eager i =
     (let t = fst i; p = fst (snd i); j = snd (snd i) in
      if (p, j) \<in> set (phase_component_set (property_package b)) then
        (case reactions b of
           None \<Rightarrow> Inl AttributeError
         | Some rb \<Rightarrow>
             if (eager \<or> idx \<noteq> []) \<and> map_of rb [Pt t] = None then Inl KeyError
             else
               Inr (Eqn (ERef gen [Pt t, Nm p, Nm j])
                 (py_sum (map (\<lambda>r. EMul (EExt st [Nm r, Nm p, Nm j])
                                         (ERef ext [Pt t, Nm r])) idx))))
      else Inr Skip)"

definition rate_reaction_step0 :: "cv0 \<Rightarrow> bool \<Rightarrow> cv0 outcome" where
  "rate_reaction_step0 self has_rate_reactions =
     (if has_rate_reactions then
        (case rate_idx self of
           None \<Rightarrow> Inl (AttributeError, self)
         | Some idx \<Rightarrow>
             and_then
               (Inr (add_var self ''rate_reaction_extent''
                       (map k_tn (List.product (time self) idx)) (Some 0)))
               (\<lambda>s1. add_constraint s1 ''rate_reaction_stoichiometry_constraint''
                  (List.product (time s1) (phase_component_set (property_package s1)))
                  k_tpj
                  (stoichiometry_rule0 s1 ''rate_reaction_generation'' ''rate_reaction_extent''
                     ''rate_reaction_stoichiometry'' idx True)))
      else Inr self)"

definition equilibrium_reaction_step0 :: "cv0 \<Rightarrow> bool \<Rightarrow> cv0 outcome" where
  "equilibrium_reaction_step0 self has_equilibrium_reactions =
     (if has_equilibrium_reactions then
        (case equilibrium_idx self of
           None \<Rightarrow> Inl (AttributeError, self)
         | Some idx \<Rightarrow>
             and_then
               (Inr (add_var self ''equilibrium_reaction_extent''
                       (map k_tn (List.product (time self) idx)) (Some 0)))
               (\<lambda>s1. add_constraint s1 ''equilibrium_reaction_stoichiometry_constraint''
                  (List.product (time s1) (phase_component_set (property_package s1)))
                  k_tpj
                  (stoichiometry_rule0 s1 ''equilibrium_reaction_generation''
                     ''equilibrium_reaction_extent''
                     ''equilibrium_reaction_stoichiometry'' idx False)))
      else Inr self)"

text \<open>
  The rule \<^verbatim>\<open>material_balances(b, t, p, j)\<close> of the component-phase balance (lines 507
  to 520). Python evaluates the operands left to right, so the state blocks are read
  before any term that can raise.
\<close>

definition material_balances_phase0 ::
    "cv0 \<Rightarrow> bool \<Rightarrow> bool \<Rightarrow> bool \<Rightarrow> bool \<Rightarrow>
     (key list \<Rightarrow> expr) option \<Rightarrow> (key list \<Rightarrow> expr) option \<Rightarrow>
     real \<times> string \<times> string \<Rightarrow> error + rule_result" where
  "material_balances_phase0 b has_rate_reactions has_equilibrium_reactions
       has_phase_equilibrium has_mass_transfer custom_molar_term custom_mass_term i =
     (let t = fst i; p = fst (snd i); j = snd (snd i); pp = property_package b;
          ix = [Pt t, Nm p, Nm j] in
      if (p, j) \<in> set (phase_component_set pp) then
        (if properties_in b = None \<or> properties_out b = None then Inl AttributeError
         else
           (case phase_equilibrium_term pp has_phase_equilibrium componentPhase [Pt t] p j of
              Inl e \<Rightarrow> Inl e
            | Inr pe \<Rightarrow>
                (case user_term_mol pp custom_molar_term ''properties_out'' True [Pt t] ix j of
                   Inl e \<Rightarrow> Inl e
                 | Inr um \<Rightarrow>
                     (case user_term_mass pp custom_mass_term ''properties_out'' True [Pt t] ix j of
                        Inl e \<Rightarrow> Inl e
                      | Inr ums \<Rightarrow>
                          Inr (Eqn (accumulation_term (dynamic b) ix)
                            (EAdd (EAdd (EAdd (EAdd (EAdd (EAdd
                               (ESub (EExt ''properties_in.get_material_flow_terms'' ix)
                                     (EExt ''properties_out.get_material_flow_terms'' ix))
                               (EMul (kinetic_term has_rate_reactions ix)
                                     (rxn_rate_conv [Pt t] j has_rate_reactions)))
                               (equilibrium_term has_equilibrium_reactions ix))
                               pe)
                               (transfer_term has_mass_transfer ix))
                               um)
                               ums))))))
      else Inr Skip)"

text \<open>
  The rule \<^verbatim>\<open>material_balances(b, t, j)\<close> of the component-total balance (lines 576 to
  591). The sums range over the phases in which the component is present; with no such
  phase the state blocks are not read by the sums. In that case every sum is the number
  \<open>0\<close>, and without custom terms the comparison of the two sides is the Python value
  \<^verbatim>\<open>True\<close> and not an equation, which \<^verbatim>\<open>Constraint\<close> refuses with a \<^verbatim>\<open>ValueError\<close>.
\<close>

definition material_balances_total0 ::
    "cv0 \<Rightarrow> bool \<Rightarrow> bool \<Rightarrow> bool \<Rightarrow>
     (key list \<Rightarrow> expr) option \<Rightarrow> (key list \<Rightarrow> expr) option \<Rightarrow>
     real \<times> string \<Rightarrow> error + rule_result" where
  "material_balances_total0 b has_rate_reactions has_equilibrium_reactions
       has_mass_transfer custom_molar_term custom_mass_term i =
     (let t = fst i; j = snd i; pp = property_package b;
          cplist = filter (\<lambda>p. (p, j) \<in> set (phase_component_set pp)) (phase_list pp);
          ix = (\<lambda>p. [Pt t, Nm p, Nm j]) in
      if cplist \<noteq> [] \<and> (properties_in b = None \<or> properties_out b = None)
        then Inl AttributeError
      else
        (case user_term_mol pp custom_molar_term ''properties_out''
                (properties_out b \<noteq> None) [Pt t] [Pt t, Nm j] j of
           Inl e \<Rightarrow> Inl e
         | Inr um \<Rightarrow>
             (case user_term_mass pp custom_mass_term ''properties_out''
                     (properties_out b \<noteq> None) [Pt t] [Pt t, Nm j] j of
                Inl e \<Rightarrow> Inl e
              | Inr ums \<Rightarrow>
                  if cplist = [] \<and> custom_molar_term = None \<and> custom_mass_term = None
                    then Inl ValueError
                  else
                  Inr (Eqn
                    (py_sum (map (\<lambda>p. accumulation_term (dynamic b) (ix p)) cplist))
                    (EAdd (EAdd (EAdd (EAdd (EAdd
                       (ESub
                          (py_sum (map (\<lambda>p. EExt ''properties_in.get_material_flow_terms'' (ix p))
                                       cplist))
                          (py_sum (map (\<lambda>p. EExt ''properties_out.get_material_flow_terms'' (ix p))
                                       cplist)))
                       (EMul (py_sum (map (\<lambda>p. kinetic_term has_rate_reactions (ix p)) cplist))
                             (rxn_rate_conv [Pt t] j has_rate_reactions)))
                       (py_sum (map (\<lambda>p. equilibrium_term has_equilibrium_reactions (ix p))
                                    cplist)))
                       (py_sum (map (\<lambda>p. transfer_term has_mass_transfer (ix p)) cplist)))
                       um)
                       ums)))))"

definition material_balances_step0 ::
    "cv0 \<Rightarrow> MaterialBalanceType \<Rightarrow> bool \<Rightarrow> bool \<Rightarrow> bool \<Rightarrow> bool \<Rightarrow>
     (key list \<Rightarrow> expr) option \<Rightarrow> (key list \<Rightarrow> expr) option \<Rightarrow> cv0 outcome" where
  "material_balances_step0 self balance_type has_rate_reactions has_equilibrium_reactions
       has_phase_equilibrium has_mass_transfer custom_molar_term custom_mass_term =
     (case balance_type of
        componentPhase \<Rightarrow>
          add_constraint self ''material_balances''
            (List.product (time self) (phase_component_set (property_package self)))
            k_tpj
            (material_balances_phase0 self has_rate_reactions has_equilibrium_reactions
               has_phase_equilibrium has_mass_transfer custom_molar_term custom_mass_term)
      | componentTotal \<Rightarrow>
          add_constraint self ''material_balances''
            (List.product (time self) (component_list (property_package self)))
            k_tn
            (material_balances_total0 self has_rate_reactions has_equilibrium_reactions
               has_mass_transfer custom_molar_term custom_mass_term)
      | elementTotal \<Rightarrow> Inl (BurntToast, self))"

text \<open>\<^verbatim>\<open>ControlVolume0DBlockData._add_material_balance_common\<close>.\<close>

definition add_material_balance_common0 ::
    "cv0 \<Rightarrow> MaterialBalanceType \<Rightarrow> bool \<Rightarrow> bool \<Rightarrow> bool \<Rightarrow> bool \<Rightarrow>
     (key list \<Rightarrow> expr) option \<Rightarrow> (key list \<Rightarrow> expr) option \<Rightarrow> cv0 outcome" where
  "add_material_balance_common0 self balance_type has_rate_reactions
       has_equilibrium_reactions has_phase_equilibrium has_mass_transfer
       custom_molar_term custom_mass_term =
     (if (has_rate_reactions \<or> has_equilibrium_reactions) \<and> reactions self = None
        then Inl (ConfigurationError, self)
      else
        (case (if has_equilibrium_reactions
               then (case reactions self of
                       None \<Rightarrow> Some AttributeError
                     | Some rb \<Rightarrow> check_has_equilibrium rb (map k_t (time self)))
               else None) of
           Some e \<Rightarrow> Inl (e, self)
         | None \<Rightarrow>
             (case (if has_phase_equilibrium
                    then check_phase_equilibrium0 (properties_in self) (properties_out self)
                           (time self)
                    else None) of
                Some e \<Rightarrow> Inl (e, self)
              | None \<Rightarrow>
                  if has_holdup self \<and> \<not> hasattr self ''volume''
                    then Inl (ConfigurationError, self)
                  else
                    and_then (material_balance_vars0 self balance_type has_rate_reactions
                                has_equilibrium_reactions has_phase_equilibrium
                                has_mass_transfer)
                      (\<lambda>s1. and_then (material_holdup_step0 (has_holdup self) s1)
                        (\<lambda>s2. and_then (rate_reaction_step0 s2 has_rate_reactions)
                          (\<lambda>s3. and_then
                                  (equilibrium_reaction_step0 s3 has_equilibrium_reactions)
                            (\<lambda>s4. material_balances_step0 s4 balance_type
                                     has_rate_reactions has_equilibrium_reactions
                                     has_phase_equilibrium has_mass_transfer
                                     custom_molar_term custom_mass_term)))))))"

text \<open>
  The two public methods pass their arguments on and return
  \<^verbatim>\<open>self.material_balances\<close>, which the common method has just attached.
\<close>

definition add_phase_component_balances0 ::
    "cv0 \<Rightarrow> bool \<Rightarrow> bool \<Rightarrow> bool \<Rightarrow> bool \<Rightarrow>
     (key list \<Rightarrow> expr) option \<Rightarrow> (key list \<Rightarrow> expr) option \<Rightarrow> cv0 outcome" where
  "add_phase_component_balances0 self has_rate_reactions has_equilibrium_reactions
       has_phase_equilibrium has_mass_transfer custom_molar_term custom_mass_term =
     add_material_balance_common0 self componentPhase has_rate_reactions
       has_equilibrium_reactions has_phase_equilibrium has_mass_transfer
       custom_molar_term custom_mass_term"

definition add_total_component_balances0 ::
    "cv0 \<Rightarrow> bool \<Rightarrow> bool \<Rightarrow> bool \<Rightarrow> bool \<Rightarrow>
     (key list \<Rightarrow> expr) option \<Rightarrow> (key list \<Rightarrow> expr) option \<Rightarrow> cv0 outcome" where
  "add_total_component_balances0 self has_rate_reactions has_equilibrium_reactions
       has_phase_equilibrium has_mass_transfer custom_molar_term custom_mass_term =
     add_material_balance_common0 self componentTotal has_rate_reactions
       has_equilibrium_reactions has_phase_equilibrium has_mass_transfer
       custom_molar_term custom_mass_term"


section \<open>The 0-D control volume: element, enthalpy and pressure balances\<close>

text \<open>
  The rules of \<^verbatim>\<open>ControlVolume0DBlockData.add_total_element_balances\<close>. A sum over a
  generator reads the state blocks only when it has an item. \<open>sb\<close> is the state block
  whose flow terms are summed; the element composition is read off \<^verbatim>\<open>properties_out\<close>.
\<close>

definition elemental_flow0 :: "cv0 \<Rightarrow> string \<Rightarrow> real \<times> string \<times> string \<Rightarrow> error + expr" where
  "elemental_flow0 b sb i =
     (let t = fst i; p = fst (snd i); e = snd (snd i);
          cl = component_list (property_package b) in
      if cl \<noteq> [] \<and> ((sb = ''properties_in'' \<and> properties_in b = None) \<or>
                     properties_out b = None)
        then Inl AttributeError
      else Inr (py_sum (map (\<lambda>j. EMul (EExt (sb @ ''.get_material_flow_terms'')
                                            [Pt t, Nm p, Nm j])
                                      (EExt ''element_comp'' [Nm j, Nm e])) cl)))"

definition element_accumulation_term :: "bool \<Rightarrow> key list \<Rightarrow> expr" where
  "element_accumulation_term dyn i = (if dyn then ERef ''element_accumulation'' i else ELit 0)"

definition element_transfer_term :: "bool \<Rightarrow> key list \<Rightarrow> expr" where
  "element_transfer_term has_mass_transfer i =
     (if has_mass_transfer then ERef ''elemental_mass_transfer_term'' i else ELit 0)"

definition user_term :: "(key list \<Rightarrow> expr) option \<Rightarrow> key list \<Rightarrow> expr" where
  "user_term custom i = (case custom of None \<Rightarrow> ELit 0 | Some f \<Rightarrow> f i)"

definition element_balances0 ::
    "cv0 \<Rightarrow> bool \<Rightarrow> (key list \<Rightarrow> expr) option \<Rightarrow> real \<times> string \<Rightarrow> error + rule_result" where
  "element_balances0 b has_mass_transfer custom_elemental_term i =
     (let t = fst i; e = snd i; pl = phase_list (property_package b) in
      Inr (Eqn (element_accumulation_term (dynamic b) [Pt t, Nm e])
        (EAdd (EAdd
           (ESub (py_sum (map (\<lambda>p. ERef ''elemental_flow_in'' [Pt t, Nm p, Nm e]) pl))
                 (py_sum (map (\<lambda>p. ERef ''elemental_flow_out'' [Pt t, Nm p, Nm e]) pl)))
           (element_transfer_term has_mass_transfer [Pt t, Nm e]))
           (user_term custom_elemental_term [Pt t, Nm e]))))"

definition elemental_holdup_calculation0 :: "cv0 \<Rightarrow> real \<times> string \<Rightarrow> error + rule_result" where
  "elemental_holdup_calculation0 b i =
     (let t = fst i; e = snd i; pp = property_package b;
          pj = List.product (phase_list pp) (component_list pp) in
      if pj \<noteq> [] \<and> properties_out b = None then Inl AttributeError
      else
        Inr (Eqn (ERef ''element_holdup'' [Pt t, Nm e])
          (EMul (ERef ''volume'' [Pt t])
             (py_sum (map (\<lambda>q. EMul (EMul (ERef ''phase_fraction'' [Pt t, Nm (fst q)])
                                           (EExt ''properties_out.get_material_density_terms''
                                              [Pt t, Nm (fst q), Nm (snd q)]))
                                     (EExt ''element_comp'' [Nm (snd q), Nm e])) pj)))))"

text \<open>\<^verbatim>\<open>ControlVolume0DBlockData.add_total_element_balances\<close>.\<close>

definition add_total_element_balances0 ::
    "cv0 \<Rightarrow> bool \<Rightarrow> bool \<Rightarrow> bool \<Rightarrow> bool \<Rightarrow> (key list \<Rightarrow> expr) option \<Rightarrow> cv0 outcome" where
  "add_total_element_balances0 self has_rate_reactions has_equilibrium_reactions
       has_phase_equilibrium has_mass_transfer custom_elemental_term =
     (case element_list (property_package self) of
        None \<Rightarrow> Inl (PropertyNotSupportedError, self)
      | Some el \<Rightarrow>
          if has_rate_reactions then Inl (ConfigurationError, self)
          else if has_equilibrium_reactions then Inl (ConfigurationError, self)
          else if has_phase_equilibrium then Inl (ConfigurationError, self)
          else if has_holdup self \<and> \<not> hasattr self ''volume''
            then Inl (ConfigurationError, self)
          else
            (let pl = phase_list (property_package self);
                 te = List.product (time self) el;
                 tpe = List.product (time self) (List.product pl el) in
             and_then
               (Inr (if has_holdup self
                     then add_var self ''element_holdup'' (map k_tn te) (Some 1)
                     else self))
               (\<lambda>s1. and_then
                 (if dynamic self
                  then add_derivative_var s1 ''element_accumulation'' ''element_holdup'' ''time''
                  else Inr s1)
                 (\<lambda>s2. and_then
                   (add_expression s2 ''elemental_flow_in'' tpe k_tpj
                      (elemental_flow0 s2 ''properties_in''))
                   (\<lambda>s3. and_then
                     (add_expression s3 ''elemental_flow_out'' tpe k_tpj
                        (elemental_flow0 s3 ''properties_out''))
                     (\<lambda>s4. and_then
                       (Inr (if has_mass_transfer
                             then add_var s4 ''elemental_mass_transfer_term''
                                    (map k_tn te) (Some 0)
                             else s4))
                       (\<lambda>s5. and_then
                         (add_constraint s5 ''element_balances'' te k_tn
                            (element_balances0 s5 has_mass_transfer custom_elemental_term))
                         (\<lambda>s6.
                            if has_holdup self then
                              and_then
                                (Inr (if \<not> hasattr s6 ''phase_fraction''
                                      then add_phase_fractions0 s6 else s6))
                                (\<lambda>s7. add_constraint s7 ''elemental_holdup_calculation''
                                         te k_tn (elemental_holdup_calculation0 s7))
                            else Inr s6))))))))"

text \<open>
  The rules of \<^verbatim>\<open>ControlVolume0DBlockData.add_total_enthalpy_balances\<close>.
  \<open>heat_of_reaction\<close> tests with \<^verbatim>\<open>hasattr\<close> which extents exist when it is built.
\<close>

definition reaction_heat ::
    "'a cv_base_scheme \<Rightarrow> bool \<Rightarrow> string \<Rightarrow> string list option \<Rightarrow> key list \<Rightarrow> error + expr" where
  "reaction_heat b rxn_present ext idx pt =
     (if hasattr b ext then
        (case idx of
           None \<Rightarrow> Inl AttributeError
         | Some rs \<Rightarrow>
             if rs \<noteq> [] \<and> \<not> rxn_present then Inl AttributeError
             else Inr (ENeg (py_sum (map (\<lambda>r. EMul (ERef ext (pt @ [Nm r]))
                                                    (EExt ''reactions.dh_rxn'' (pt @ [Nm r])))
                                         rs))))
      else Inr (ELit 0))"

definition heat_of_reaction :: "'a cv_base_scheme \<Rightarrow> bool \<Rightarrow> key list \<Rightarrow> error + expr" where
  "heat_of_reaction b rxn_present pt =
     (case reaction_heat b rxn_present ''rate_reaction_extent'' (rate_idx b) pt of
        Inl e \<Rightarrow> Inl e
      | Inr rate_heat \<Rightarrow>
          (case reaction_heat b rxn_present ''equilibrium_reaction_extent''
                  (equilibrium_idx b) pt of
             Inl e \<Rightarrow> Inl e
           | Inr equil_heat \<Rightarrow> Inr (EAdd rate_heat equil_heat)))"

definition energy_accumulation_term :: "bool \<Rightarrow> key list \<Rightarrow> expr" where
  "energy_accumulation_term dyn i = (if dyn then ERef ''energy_accumulation'' i else ELit 0)"

definition heat_term :: "bool \<Rightarrow> key list \<Rightarrow> expr" where
  "heat_term has_heat_transfer i = (if has_heat_transfer then ERef ''heat'' i else ELit 0)"

definition work_term :: "bool \<Rightarrow> key list \<Rightarrow> expr" where
  "work_term has_work_transfer i = (if has_work_transfer then ERef ''work'' i else ELit 0)"

definition rxn_heat_term :: "bool \<Rightarrow> key list \<Rightarrow> expr" where
  "rxn_heat_term has_heat_of_reaction i =
     (if has_heat_of_reaction then ERef ''heat_of_reaction'' i else ELit 0)"

definition enthalpy_balances0 ::
    "cv0 \<Rightarrow> bool \<Rightarrow> bool \<Rightarrow> bool \<Rightarrow> (key list \<Rightarrow> expr) option \<Rightarrow> real \<Rightarrow>
     error + rule_result" where
  "enthalpy_balances0 b has_heat_of_reaction has_heat_transfer has_work_transfer custom_term t =
     (let pl = phase_list (property_package b);
          sf = ERef ''scaling_factor_energy'' [] in
      if pl \<noteq> [] \<and> (properties_in b = None \<or> properties_out b = None)
        then Inl AttributeError
      else
        Inr (Eqn
          (EMul (py_sum (map (\<lambda>p. energy_accumulation_term (dynamic b) [Pt t, Nm p]) pl)) sf)
          (EAdd (EAdd (EAdd (EAdd
             (ESub
                (EMul (py_sum (map (\<lambda>p. EExt ''properties_in.get_enthalpy_flow_terms''
                                            [Pt t, Nm p]) pl)) sf)
                (EMul (py_sum (map (\<lambda>p. EExt ''properties_out.get_enthalpy_flow_terms''
                                            [Pt t, Nm p]) pl)) sf))
             (EMul (heat_term has_heat_transfer [Pt t]) sf))
             (EMul (work_term has_work_transfer [Pt t]) sf))
             (EMul (rxn_heat_term has_heat_of_reaction [Pt t]) sf))
             (EMul (user_term custom_term [Pt t]) sf))))"

definition enthalpy_holdup_calculation0 :: "cv0 \<Rightarrow> real \<times> string \<Rightarrow> error + rule_result" where
  "enthalpy_holdup_calculation0 b i =
     (let t = fst i; p = snd i in
      if properties_out b = None then Inl AttributeError
      else
        Inr (Eqn (ERef ''energy_holdup'' [Pt t, Nm p])
          (EMul (EMul (ERef ''volume'' [Pt t]) (ERef ''phase_fraction'' [Pt t, Nm p]))
                (EExt ''properties_out.get_energy_density_terms'' [Pt t, Nm p]))))"

text \<open>\<^verbatim>\<open>ControlVolume0DBlockData.add_total_enthalpy_balances\<close>.\<close>

definition add_total_enthalpy_balances0 ::
    "cv0 \<Rightarrow> bool \<Rightarrow> bool \<Rightarrow> bool \<Rightarrow> (key list \<Rightarrow> expr) option \<Rightarrow> cv0 outcome" where
  "add_total_enthalpy_balances0 self has_heat_of_reaction has_heat_transfer has_work_transfer
       custom_term =
     (if has_holdup self \<and> \<not> hasattr self ''volume'' then Inl (ConfigurationError, self)
      else if has_heat_of_reaction \<and>
              \<not> (hasattr self ''rate_reaction_extent'' \<or>
                 hasattr self ''equilibrium_reaction_extent'')
        then Inl (ConfigurationError, self)
      else
        (let pl = phase_list (property_package self);
             tp = List.product (time self) pl in
         and_then
           (Inr (if has_holdup self
                 then add_var self ''energy_holdup'' (map k_tn tp) (Some 1)
                 else self))
           (\<lambda>s1. and_then
             (if dynamic self
              then add_derivative_var s1 ''energy_accumulation'' ''energy_holdup'' ''time''
              else Inr s1)
             (\<lambda>s2. and_then
               (Inr (setattr s2 ''scaling_factor_energy'' (Param (1 / 1000000))))
               (\<lambda>s3. and_then
                 (Inr (if has_heat_transfer
                       then add_var s3 ''heat'' (map k_t (time self)) (Some 0) else s3))
                 (\<lambda>s4. and_then
                   (Inr (if has_work_transfer
                         then add_var s4 ''work'' (map k_t (time self)) (Some 0) else s4))
                   (\<lambda>s5. and_then
                     (if has_heat_of_reaction
                      then add_expression s5 ''heat_of_reaction'' (time self) k_t
                             (\<lambda>t. heat_of_reaction s5 (reactions s5 \<noteq> None) [Pt t])
                      else Inr s5)
                     (\<lambda>s6. and_then
                       (add_constraint s6 ''enthalpy_balances'' (time self) k_t
                          (enthalpy_balances0 s6 has_heat_of_reaction has_heat_transfer
                             has_work_transfer custom_term))
                       (\<lambda>s7.
                          if has_holdup self then
                            and_then
                              (Inr (if \<not> hasattr s7 ''phase_fraction''
                                    then add_phase_fractions0 s7 else s7))
                              (\<lambda>s8. add_constraint s8 ''enthalpy_holdup_calculation'' tp k_tn
                                       (enthalpy_holdup_calculation0 s8))
                          else Inr s7)))))))))"

text \<open>\<^verbatim>\<open>ControlVolume0DBlockData.add_total_pressure_balances\<close> and its rule.\<close>

definition deltaP_term :: "bool \<Rightarrow> key list \<Rightarrow> expr" where
  "deltaP_term has_pressure_change i =
     (if has_pressure_change then ERef ''deltaP'' i else ELit 0)"

definition pressure_balance0 ::
    "cv0 \<Rightarrow> bool \<Rightarrow> (key list \<Rightarrow> expr) option \<Rightarrow> real \<Rightarrow> error + rule_result" where
  "pressure_balance0 b has_pressure_change custom_term t =
     (let sf = ERef ''scaling_factor_pressure'' [] in
      if properties_in b = None \<or> properties_out b = None then Inl AttributeError
      else
        Inr (Eqn (ELit 0)
          (EAdd (EAdd
             (ESub (EMul (EExt ''properties_in.pressure'' [Pt t]) sf)
                   (EMul (EExt ''properties_out.pressure'' [Pt t]) sf))
             (EMul (deltaP_term has_pressure_change [Pt t]) sf))
             (EMul (user_term custom_term [Pt t]) sf))))"

definition add_total_pressure_balances0 ::
    "cv0 \<Rightarrow> bool \<Rightarrow> (key list \<Rightarrow> expr) option \<Rightarrow> cv0 outcome" where
  "add_total_pressure_balances0 self has_pressure_change custom_term =
     and_then
       (Inr (if has_pressure_change
             then add_var self ''deltaP'' (map k_t (time self)) (Some 0) else self))
       (\<lambda>s1. and_then
         (Inr (setattr s1 ''scaling_factor_pressure'' (Param (1 / 10000))))
         (\<lambda>s2. add_constraint s2 ''pressure_balance'' (time self) k_t
                  (pressure_balance0 s2 has_pressure_change custom_term)))"


section \<open>The 1-D control volume: material balances\<close>

text \<open>
  \<^verbatim>\<open>ControlVolume1DBlockData._area_func\<close>, and the attributes of \<^verbatim>\<open>add_geometry\<close>
  that every balance rule reads: \<^verbatim>\<open>b.length\<close> and \<^verbatim>\<open>b._flow_direction_term\<close>.
\<close>

definition area_func :: "cv1 \<Rightarrow> real \<Rightarrow> real \<Rightarrow> expr" where
  "area_func b t x =
     (if area_definition b = uniform then ERef ''area'' [] else ERef ''area'' [Pt t, Pt x])"

text \<open>
  The variables and the flow-linking constraint of
  \<^verbatim>\<open>ControlVolume1DBlockData._add_material_balance_common\<close> (lines 366 to 483);
  \<open>ld\<close> is \<^verbatim>\<open>self.length_domain\<close>.
\<close>

definition material_flow_linking_constraints1 ::
    "cv1 \<Rightarrow> real \<times> real \<times> string \<times> string \<Rightarrow> error + rule_result" where
  "material_flow_linking_constraints1 b i =
     (if properties b = None then Inl AttributeError
      else Inr (Eqn (ERef ''_flow_terms'' (k_txpj i))
                    (EExt ''properties.get_material_flow_terms'' (k_txpj i))))"

definition material_balance_vars1 ::
    "cv1 \<Rightarrow> real list \<Rightarrow> MaterialBalanceType \<Rightarrow> bool \<Rightarrow> bool \<Rightarrow> bool \<Rightarrow> bool \<Rightarrow> cv1 outcome" where
  "material_balance_vars1 self ld balance_type has_rate_reactions has_equilibrium_reactions
       has_phase_equilibrium has_mass_transfer =
     (let pc_set = phase_component_set (property_package self);
          txpj = List.product (time self) (List.product ld pc_set) in
      and_then
        (Inr (if has_holdup self then add_var self ''material_holdup'' (map k_txpj txpj) (Some 1)
              else self))
        (\<lambda>s1. and_then
          (if dynamic self
           then add_derivative_var s1 ''material_accumulation'' ''material_holdup'' ''time''
           else Inr s1)
          (\<lambda>s2. and_then
            (Inr (add_var s2 ''_flow_terms'' (map k_txpj txpj) (Some 1)))
            (\<lambda>s3. and_then
              (add_constraint s3 ''material_flow_linking_constraints'' txpj k_txpj
                 (material_flow_linking_constraints1 s3))
              (\<lambda>s4. and_then
                (add_derivative_var s4 ''material_flow_dx'' ''_flow_terms'' ''length_domain'')
                (\<lambda>s5. and_then
                  (if has_rate_reactions then
                     (if rate_idx self = None then Inl (PropertyNotSupportedError, s5)
                      else Inr (add_var s5 ''rate_reaction_generation'' (map k_txpj txpj)
                                  (Some 0)))
                   else Inr s5)
                  (\<lambda>s6. and_then
                    (if has_equilibrium_reactions then
                       (if equilibrium_idx self = None then Inl (PropertyNotSupportedError, s6)
                        else Inr (add_var s6 ''equilibrium_reaction_generation''
                                    (map k_txpj txpj) (Some 0)))
                     else Inr s6)
                    (\<lambda>s7. and_then
                      (if has_phase_equilibrium \<and> balance_type = componentPhase then
                         (case phase_equilibrium_idx (property_package self) of
                            None \<Rightarrow> Inl (PropertyNotSupportedError, s7)
                          | Some idx \<Rightarrow>
                              Inr (add_var s7 ''phase_equilibrium_generation''
                                     (map k_txn (List.product (time self) (List.product ld idx)))
                                     (Some 0)))
                       else Inr s7)
                      (\<lambda>s8. Inr (if has_mass_transfer
                                  then add_var s8 ''mass_transfer_term'' (map k_txpj txpj)
                                         (Some 0)
                                  else s8))))))))))"

text \<open>The holdup constraint (lines 530 to 542).\<close>

definition material_holdup_calculation1 ::
    "cv1 \<Rightarrow> real \<times> real \<times> string \<times> string \<Rightarrow> error + rule_result" where
  "material_holdup_calculation1 b i =
     (let t = fst i; x = fst (snd i); p = fst (snd (snd i)); j = snd (snd (snd i)) in
      if (p, j) \<in> set (phase_component_set (property_package b)) then
        (if \<not> hasattr b ''area'' \<or> properties b = None then Inl AttributeError
         else Inr (Eqn (ERef ''material_holdup'' [Pt t, Pt x, Nm p, Nm j])
                (EMul (EMul (area_func b t x) (ERef ''phase_fraction'' [Pt t, Pt x, Nm p]))
                      (EExt ''properties.get_material_density_terms''
                         [Pt t, Pt x, Nm p, Nm j]))))
      else Inl ValueError)"

definition material_holdup_step1 :: "bool \<Rightarrow> cv1 \<Rightarrow> real list \<Rightarrow> cv1 outcome" where
  "material_holdup_step1 holdup self ld =
     (if holdup then
        and_then
          (Inr (if \<not> hasattr self ''phase_fraction'' then add_phase_fractions1 self ld
                else self))
          (\<lambda>s1. add_constraint s1 ''material_holdup_calculation''
                  (List.product (time s1)
                     (List.product ld (phase_component_set (property_package s1))))
                  k_txpj (material_holdup_calculation1 s1))
      else Inr self)"

text \<open>Extents of reaction and the stoichiometry constraints (lines 544 to 597).\<close>

definition stoichiometry_rule1 ::
    "cv1 \<Rightarrow> string \<Rightarrow> string \<Rightarrow> string \<Rightarrow> string list \<Rightarrow> bool \<Rightarrow>
     real \<times> real \<times> string \<times> string \<Rightarrow> error + rule_result" where
  "stoichiometry_rule1 b gen ext st idx eager i =
     (let t = fst i; x = fst (snd i); p = fst (snd (snd i)); j = snd (snd (snd i)) in
      if (p, j) \<in> set (phase_component_set (property_package b)) then
        (case reactions1 b of
           None \<Rightarrow> Inl AttributeError
         | Some rb \<Rightarrow>
             if (eager \<or> idx \<noteq> []) \<and> map_of rb [Pt t, Pt x] = None then Inl KeyError
             else
               Inr (Eqn (ERef gen [Pt t, Pt x, Nm p, Nm j])
                 (py_sum (map (\<lambda>r. EMul (EExt st [Nm r, Nm p, Nm j])
                                         (ERef ext [Pt t, Pt x, Nm r])) idx))))
      else Inr Skip)"

definition rate_reaction_step1 :: "cv1 \<Rightarrow> real list \<Rightarrow> bool \<Rightarrow> cv1 outcome" where
  "rate_reaction_step1 self ld has_rate_reactions =
     (if has_rate_reactions then
        (case rate_idx self of
           None \<Rightarrow> Inl (AttributeError, self)
         | Some idx \<Rightarrow>
             and_then
               (Inr (add_var self ''rate_reaction_extent''
                       (map k_txn (List.product (time self) (List.product ld idx))) (Some 0)))
               (\<lambda>s1. add_constraint s1 ''rate_reaction_stoichiometry_constraint''
                  (List.product (time s1)
                     (List.product ld (phase_component_set (property_package s1))))
                  k_txpj
                  (stoichiometry_rule1 s1 ''rate_reaction_generation'' ''rate_reaction_extent''
                     ''rate_reaction_stoichiometry'' idx True)))
      else Inr self)"

definition equilibrium_reaction_step1 :: "cv1 \<Rightarrow> real list \<Rightarrow> bool \<Rightarrow> cv1 outcome" where
  "equilibrium_reaction_step1 self ld has_equilibrium_reactions =
     (if has_equilibrium_reactions then
        (case equilibrium_idx self of
           None \<Rightarrow> Inl (AttributeError, self)
         | Some idx \<Rightarrow>
             and_then
               (Inr (add_var self ''equilibrium_reaction_extent''
                       (map k_txn (List.product (time self) (List.product ld idx))) (Some 0)))
               (\<lambda>s1. add_constraint s1 ''equilibrium_reaction_stoichiometry_constraint''
                  (List.product (time s1)
                     (List.product ld (phase_component_set (property_package s1))))
                  k_txpj
                  (stoichiometry_rule1 s1 ''equilibrium_reaction_generation''
                     ''equilibrium_reaction_extent''
                     ''equilibrium_reaction_stoichiometry'' idx False)))
      else Inr self)"

text \<open>
  The rule \<^verbatim>\<open>material_balances(b, t, x, p, j)\<close> of the component-phase balance (lines
  655 to 675); \<open>ld\<close> is \<^verbatim>\<open>b.length_domain\<close>, whose \<^verbatim>\<open>first()\<close> and \<^verbatim>\<open>last()\<close>
  are the first and the last point of the ordered set.
\<close>

definition material_balances_phase1 ::
    "cv1 \<Rightarrow> real list \<Rightarrow> bool \<Rightarrow> bool \<Rightarrow> bool \<Rightarrow> bool \<Rightarrow>
     (key list \<Rightarrow> expr) option \<Rightarrow> (key list \<Rightarrow> expr) option \<Rightarrow>
     real \<times> real \<times> string \<times> string \<Rightarrow> error + rule_result" where
  "material_balances_phase1 b ld has_rate_reactions has_equilibrium_reactions
       has_phase_equilibrium has_mass_transfer custom_molar_term custom_mass_term i =
     (let t = fst i; x = fst (snd i); p = fst (snd (snd i)); j = snd (snd (snd i));
          pp = property_package b; ix = [Pt t, Pt x, Nm p, Nm j];
          len = ERef ''length'' [] in
      if (transformation_scheme b \<noteq> Some ''FORWARD'' \<and> x = hd ld) \<or>
         (transformation_scheme b = Some ''FORWARD'' \<and> x = last ld)
        then Inr Skip
      else if (p, j) \<in> set (phase_component_set pp) then
        (if \<not> hasattr b ''length'' then Inl AttributeError
         else
           (case flow_direction_term b of
              None \<Rightarrow> Inl AttributeError
            | Some fdt \<Rightarrow>
           (case phase_equilibrium_term pp has_phase_equilibrium componentPhase [Pt t, Pt x] p j of
              Inl e \<Rightarrow> Inl e
            | Inr pe \<Rightarrow>
                (case user_term_mol pp custom_molar_term ''properties'' (properties b \<noteq> None)
                        [Pt t, Pt x] ix j of
                   Inl e \<Rightarrow> Inl e
                 | Inr um \<Rightarrow>
                     (case user_term_mass pp custom_mass_term ''properties'' (properties b \<noteq> None)
                             [Pt t, Pt x] ix j of
                        Inl e \<Rightarrow> Inl e
                      | Inr ums \<Rightarrow>
                          Inr (Eqn (EMul len (accumulation_term (dynamic b) ix))
                            (EAdd (EAdd (EAdd (EAdd (EAdd (EAdd
                               (EMul (ELit (of_int fdt)) (ERef ''material_flow_dx'' ix))
                               (EMul (EMul len (kinetic_term has_rate_reactions ix))
                                     (rxn_rate_conv [Pt t, Pt x] j has_rate_reactions)))
                               (EMul len (equilibrium_term has_equilibrium_reactions ix)))
                               (EMul len pe))
                               (EMul len (transfer_term has_mass_transfer ix)))
                               (EMul len um))
                               (EMul len ums))))))))
      else Inr Skip)"

text \<open>
  The rule \<^verbatim>\<open>material_balances(b, t, x, j)\<close> of the component-total balance (lines 733
  to 758).
\<close>

definition material_balances_total1 ::
    "cv1 \<Rightarrow> real list \<Rightarrow> bool \<Rightarrow> bool \<Rightarrow> bool \<Rightarrow>
     (key list \<Rightarrow> expr) option \<Rightarrow> (key list \<Rightarrow> expr) option \<Rightarrow>
     real \<times> real \<times> string \<Rightarrow> error + rule_result" where
  "material_balances_total1 b ld has_rate_reactions has_equilibrium_reactions
       has_mass_transfer custom_molar_term custom_mass_term i =
     (let t = fst i; x = fst (snd i); j = snd (snd i); pp = property_package b;
          cplist = filter (\<lambda>p. (p, j) \<in> set (phase_component_set pp)) (phase_list pp);
          ix = (\<lambda>p. [Pt t, Pt x, Nm p, Nm j]);
          len = ERef ''length'' [] in
      if (transformation_scheme b \<noteq> Some ''FORWARD'' \<and> x = hd ld) \<or>
         (transformation_scheme b = Some ''FORWARD'' \<and> x = last ld)
        then Inr Skip
      else if \<not> hasattr b ''length'' then Inl AttributeError
      else
        (case flow_direction_term b of
           None \<Rightarrow> Inl AttributeError
         | Some fdt \<Rightarrow>
        (case user_term_mol pp custom_molar_term ''properties'' (properties b \<noteq> None)
                [Pt t, Pt x] [Pt t, Pt x, Nm j] j of
           Inl e \<Rightarrow> Inl e
         | Inr um \<Rightarrow>
             (case user_term_mass pp custom_mass_term ''properties'' (properties b \<noteq> None)
                     [Pt t, Pt x] [Pt t, Pt x, Nm j] j of
                Inl e \<Rightarrow> Inl e
              | Inr ums \<Rightarrow>
                  Inr (Eqn
                    (EMul len (py_sum (map (\<lambda>p. accumulation_term (dynamic b) (ix p)) cplist)))
                    (EAdd (EAdd (EAdd (EAdd (EAdd
                       (EMul (ELit (of_int fdt))
                             (py_sum (map (\<lambda>p. ERef ''material_flow_dx'' (ix p)) cplist)))
                       (EMul (EMul len
                                (py_sum (map (\<lambda>p. kinetic_term has_rate_reactions (ix p)) cplist)))
                             (rxn_rate_conv [Pt t, Pt x] j has_rate_reactions)))
                       (EMul len
                          (py_sum (map (\<lambda>p. equilibrium_term has_equilibrium_reactions (ix p))
                                       cplist))))
                       (EMul len
                          (py_sum (map (\<lambda>p. transfer_term has_mass_transfer (ix p)) cplist))))
                       (EMul len um))
                       (EMul len ums)))))))"

text \<open>
  The dispatch on the balance type; the 1-D method has no final \<^verbatim>\<open>else\<close>, so any
  other balance type attaches nothing.
\<close>

definition material_balances_step1 ::
    "cv1 \<Rightarrow> real list \<Rightarrow> MaterialBalanceType \<Rightarrow> bool \<Rightarrow> bool \<Rightarrow> bool \<Rightarrow> bool \<Rightarrow>
     (key list \<Rightarrow> expr) option \<Rightarrow> (key list \<Rightarrow> expr) option \<Rightarrow> cv1 outcome" where
  "material_balances_step1 self ld balance_type has_rate_reactions has_equilibrium_reactions
       has_phase_equilibrium has_mass_transfer custom_molar_term custom_mass_term =
     (case balance_type of
        componentPhase \<Rightarrow>
          add_constraint self ''material_balances''
            (List.product (time self)
               (List.product ld (phase_component_set (property_package self))))
            k_txpj
            (material_balances_phase1 self ld has_rate_reactions has_equilibrium_reactions
               has_phase_equilibrium has_mass_transfer custom_molar_term custom_mass_term)
      | componentTotal \<Rightarrow>
          add_constraint self ''material_balances''
            (List.product (time self)
               (List.product ld (component_list (property_package self))))
            k_txn
            (material_balances_total1 self ld has_rate_reactions has_equilibrium_reactions
               has_mass_transfer custom_molar_term custom_mass_term)
      | elementTotal \<Rightarrow> Inr self)"

text \<open>
  \<^verbatim>\<open>ControlVolume1DBlockData._add_material_balance_common\<close>. The length domain is
  read by the first loop or variable that needs it; no statement before that changes the
  control volume.
\<close>

definition add_material_balance_common1 ::
    "cv1 \<Rightarrow> MaterialBalanceType \<Rightarrow> bool \<Rightarrow> bool \<Rightarrow> bool \<Rightarrow> bool \<Rightarrow>
     (key list \<Rightarrow> expr) option \<Rightarrow> (key list \<Rightarrow> expr) option \<Rightarrow> cv1 outcome" where
  "add_material_balance_common1 self balance_type has_rate_reactions
       has_equilibrium_reactions has_phase_equilibrium has_mass_transfer
       custom_molar_term custom_mass_term =
     (if (has_rate_reactions \<or> has_equilibrium_reactions) \<and> reactions1 self = None
        then Inl (ConfigurationError, self)
      else
        (case length_domain self of
           None \<Rightarrow> Inl (AttributeError, self)
         | Some ld \<Rightarrow>
        (case (if has_equilibrium_reactions
               then (case reactions1 self of
                       None \<Rightarrow> Some AttributeError
                     | Some rb \<Rightarrow>
                         check_has_equilibrium rb (map k_tx (List.product (time self) ld)))
               else None) of
           Some e \<Rightarrow> Inl (e, self)
         | None \<Rightarrow>
             (case (if has_phase_equilibrium
                    then (case properties self of
                            None \<Rightarrow> (if List.product (time self) ld = [] then None
                                     else Some AttributeError)
                          | Some sb \<Rightarrow>
                              check_phase_equilibrium sb (map k_tx (List.product (time self) ld)))
                    else None) of
                Some e \<Rightarrow> Inl (e, self)
              | None \<Rightarrow>
                  and_then (material_balance_vars1 self ld balance_type has_rate_reactions
                              has_equilibrium_reactions has_phase_equilibrium
                              has_mass_transfer)
                    (\<lambda>s1. and_then (material_holdup_step1 (has_holdup self) s1 ld)
                      (\<lambda>s2. and_then (rate_reaction_step1 s2 ld has_rate_reactions)
                        (\<lambda>s3. and_then
                                (equilibrium_reaction_step1 s3 ld has_equilibrium_reactions)
                          (\<lambda>s4. material_balances_step1 s4 ld balance_type
                                   has_rate_reactions has_equilibrium_reactions
                                   has_phase_equilibrium has_mass_transfer
                                   custom_molar_term custom_mass_term))))))))"

text \<open>
  The public methods return \<^verbatim>\<open>self.material_balances\<close> after the common method.
\<close>

definition add_phase_component_balances1 ::
    "cv1 \<Rightarrow> bool \<Rightarrow> bool \<Rightarrow> bool \<Rightarrow> bool \<Rightarrow>
     (key list \<Rightarrow> expr) option \<Rightarrow> (key list \<Rightarrow> expr) option \<Rightarrow> cv1 outcome" where
  "add_phase_component_balances1 self has_rate_reactions has_equilibrium_reactions
       has_phase_equilibrium has_mass_transfer custom_molar_term custom_mass_term =
     add_material_balance_common1 self componentPhase has_rate_reactions
       has_equilibrium_reactions has_phase_equilibrium has_mass_transfer
       custom_molar_term custom_mass_term"

definition add_total_component_balances1 ::
    "cv1 \<Rightarrow> bool \<Rightarrow> bool \<Rightarrow> bool \<Rightarrow> bool \<Rightarrow>
     (key list \<Rightarrow> expr) option \<Rightarrow> (key list \<Rightarrow> expr) option \<Rightarrow> cv1 outcome" where
  "add_total_component_balances1 self has_rate_reactions has_equilibrium_reactions
       has_phase_equilibrium has_mass_transfer custom_molar_term custom_mass_term =
     add_material_balance_common1 self componentTotal has_rate_reactions
       has_equilibrium_reactions has_phase_equilibrium has_mass_transfer
       custom_molar_term custom_mass_term"


section \<open>The 1-D control volume: element, enthalpy and pressure balances\<close>

text \<open>The rules of \<^verbatim>\<open>ControlVolume1DBlockData.add_total_element_balances\<close>.\<close>

definition elemental_flow_constraint1 ::
    "cv1 \<Rightarrow> real \<times> real \<times> string \<Rightarrow> error + rule_result" where
  "elemental_flow_constraint1 b i =
     (let t = fst i; x = fst (snd i); e = snd (snd i); pp = property_package b in
      if phase_list pp \<noteq> [] \<and> component_list pp \<noteq> [] \<and> properties b = None
        then Inl AttributeError
      else
        Inr (Eqn (ERef ''elemental_flow_term'' [Pt t, Pt x, Nm e])
          (py_sum (map (\<lambda>p.
             py_sum (map (\<lambda>j. EMul (EExt ''properties.get_material_flow_terms''
                                        [Pt t, Pt x, Nm p, Nm j])
                                     (EExt ''element_comp'' [Nm j, Nm e]))
                          (component_list pp)))
             (phase_list pp)))))"

definition element_balances1 ::
    "cv1 \<Rightarrow> real list \<Rightarrow> bool \<Rightarrow> (key list \<Rightarrow> expr) option \<Rightarrow>
     real \<times> real \<times> string \<Rightarrow> error + rule_result" where
  "element_balances1 b ld has_mass_transfer custom_elemental_term i =
     (let t = fst i; x = fst (snd i); e = snd (snd i); ix = [Pt t, Pt x, Nm e];
          len = ERef ''length'' [] in
      if (transformation_scheme b \<noteq> Some ''FORWARD'' \<and> x = hd ld) \<or>
         (transformation_scheme b = Some ''FORWARD'' \<and> x = last ld)
        then Inr Skip
      else if \<not> hasattr b ''length'' then Inl AttributeError
      else
        (case flow_direction_term b of
           None \<Rightarrow> Inl AttributeError
         | Some fdt \<Rightarrow>
             Inr (Eqn (EMul len (element_accumulation_term (dynamic b) ix))
               (EAdd (EAdd
                  (EMul (ELit (of_int fdt)) (ERef ''elemental_flow_dx'' ix))
                  (EMul len (element_transfer_term has_mass_transfer ix)))
                  (EMul len (user_term custom_elemental_term ix))))))"

definition elemental_holdup_calculation1 ::
    "cv1 \<Rightarrow> real \<times> real \<times> string \<Rightarrow> error + rule_result" where
  "elemental_holdup_calculation1 b i =
     (let t = fst i; x = fst (snd i); e = snd (snd i); pp = property_package b;
          pj = List.product (phase_list pp) (component_list pp) in
      if \<not> hasattr b ''area'' then Inl AttributeError
      else if pj \<noteq> [] \<and> properties b = None then Inl AttributeError
      else
        Inr (Eqn (ERef ''element_holdup'' [Pt t, Pt x, Nm e])
          (EMul (area_func b t x)
             (py_sum (map (\<lambda>q. EMul (EMul (ERef ''phase_fraction'' [Pt t, Pt x, Nm (fst q)])
                                           (EExt ''properties.get_material_density_terms''
                                              [Pt t, Pt x, Nm (fst q), Nm (snd q)]))
                                     (EExt ''element_comp'' [Nm (snd q), Nm e])) pj)))))"

text \<open>\<^verbatim>\<open>ControlVolume1DBlockData.add_total_element_balances\<close>.\<close>

definition add_total_element_balances1 ::
    "cv1 \<Rightarrow> bool \<Rightarrow> bool \<Rightarrow> bool \<Rightarrow> bool \<Rightarrow> (key list \<Rightarrow> expr) option \<Rightarrow> cv1 outcome" where
  "add_total_element_balances1 self has_rate_reactions has_equilibrium_reactions
       has_phase_equilibrium has_mass_transfer custom_elemental_term =
     (case element_list (property_package self) of
        None \<Rightarrow> Inl (PropertyNotSupportedError, self)
      | Some el \<Rightarrow>
          if has_rate_reactions then Inl (ConfigurationError, self)
          else if has_equilibrium_reactions then Inl (ConfigurationError, self)
          else if has_phase_equilibrium then Inl (ConfigurationError, self)
          else
            (case length_domain self of
               None \<Rightarrow> Inl (AttributeError, self)
             | Some ld \<Rightarrow>
            (let txe = List.product (time self) (List.product ld el) in
             and_then
               (Inr (if has_holdup self
                     then add_var self ''element_holdup'' (map k_txn txe) (Some 1)
                     else self))
               (\<lambda>s1. and_then
                 (if dynamic self
                  then add_derivative_var s1 ''element_accumulation'' ''element_holdup'' ''time''
                  else Inr s1)
                 (\<lambda>s2. and_then
                   (Inr (add_var s2 ''elemental_flow_term'' (map k_txn txe) (Some 1)))
                   (\<lambda>s3. and_then
                     (add_constraint s3 ''elemental_flow_constraint'' txe k_txn
                        (elemental_flow_constraint1 s3))
                     (\<lambda>s4. and_then
                       (add_derivative_var s4 ''elemental_flow_dx'' ''elemental_flow_term''
                          ''length_domain'')
                       (\<lambda>s5. and_then
                         (Inr (if has_mass_transfer
                               then add_var s5 ''elemental_mass_transfer_term''
                                      (map k_txn txe) (Some 0)
                               else s5))
                         (\<lambda>s6. and_then
                           (add_constraint s6 ''element_balances'' txe k_txn
                              (element_balances1 s6 ld has_mass_transfer custom_elemental_term))
                           (\<lambda>s7.
                              if has_holdup self then
                                and_then
                                  (Inr (if \<not> hasattr s7 ''phase_fraction''
                                        then add_phase_fractions1 s7 ld else s7))
                                  (\<lambda>s8. add_constraint s8 ''elemental_holdup_calculation''
                                           txe k_txn (elemental_holdup_calculation1 s8))
                              else Inr s7))))))))))"

text \<open>The rules of \<^verbatim>\<open>ControlVolume1DBlockData.add_total_enthalpy_balances\<close>.\<close>

definition enthalpy_flow_linking_constraint1 ::
    "cv1 \<Rightarrow> real \<times> real \<times> string \<Rightarrow> error + rule_result" where
  "enthalpy_flow_linking_constraint1 b i =
     (if properties b = None then Inl AttributeError
      else Inr (Eqn (ERef ''_enthalpy_flow'' (k_txn i))
                    (EExt ''properties.get_enthalpy_flow_terms'' (k_txn i))))"

definition enthalpy_balances1 ::
    "cv1 \<Rightarrow> real list \<Rightarrow> bool \<Rightarrow> bool \<Rightarrow> bool \<Rightarrow> (key list \<Rightarrow> expr) option \<Rightarrow>
     real \<times> real \<Rightarrow> error + rule_result" where
  "enthalpy_balances1 b ld has_heat_of_reaction has_heat_transfer has_work_transfer
       custom_term i =
     (let t = fst i; x = snd i; pl = phase_list (property_package b);
          sf = ERef ''scaling_factor_energy'' []; len = ERef ''length'' [] in
      if (transformation_scheme b \<noteq> Some ''FORWARD'' \<and> x = hd ld) \<or>
         (transformation_scheme b = Some ''FORWARD'' \<and> x = last ld)
        then Inr Skip
      else if \<not> hasattr b ''length'' then Inl AttributeError
      else
        (case flow_direction_term b of
           None \<Rightarrow> Inl AttributeError
         | Some fdt \<Rightarrow>
             Inr (Eqn
               (EMul (EMul len
                  (py_sum (map (\<lambda>p. energy_accumulation_term (dynamic b) [Pt t, Pt x, Nm p]) pl)))
                  sf)
               (EAdd (EAdd (EAdd (EAdd
                  (EMul (EMul (ELit (of_int fdt))
                     (py_sum (map (\<lambda>p. ERef ''enthalpy_flow_dx'' [Pt t, Pt x, Nm p]) pl))) sf)
                  (EMul (EMul len (heat_term has_heat_transfer [Pt t, Pt x])) sf))
                  (EMul (EMul len (work_term has_work_transfer [Pt t, Pt x])) sf))
                  (EMul (EMul len (rxn_heat_term has_heat_of_reaction [Pt t, Pt x])) sf))
                  (EMul (EMul len (user_term custom_term [Pt t, Pt x])) sf)))))"

definition enthalpy_holdup_calculation1 ::
    "cv1 \<Rightarrow> real \<times> real \<times> string \<Rightarrow> error + rule_result" where
  "enthalpy_holdup_calculation1 b i =
     (let t = fst i; x = fst (snd i); p = snd (snd i) in
      if \<not> hasattr b ''area'' \<or> properties b = None then Inl AttributeError
      else
        Inr (Eqn (ERef ''energy_holdup'' [Pt t, Pt x, Nm p])
          (EMul (EMul (area_func b t x) (ERef ''phase_fraction'' [Pt t, Pt x, Nm p]))
                (EExt ''properties.get_energy_density_terms'' [Pt t, Pt x, Nm p]))))"

text \<open>\<^verbatim>\<open>ControlVolume1DBlockData.add_total_enthalpy_balances\<close>.\<close>

definition add_total_enthalpy_balances1 ::
    "cv1 \<Rightarrow> bool \<Rightarrow> bool \<Rightarrow> bool \<Rightarrow> (key list \<Rightarrow> expr) option \<Rightarrow> cv1 outcome" where
  "add_total_enthalpy_balances1 self has_heat_of_reaction has_heat_transfer has_work_transfer
       custom_term =
     (if has_heat_of_reaction \<and>
         \<not> (hasattr self ''rate_reaction_extent'' \<or>
            hasattr self ''equilibrium_reaction_extent'')
        then Inl (ConfigurationError, self)
      else
        (case length_domain self of
           None \<Rightarrow> Inl (AttributeError, self)
         | Some ld \<Rightarrow>
        (let pl = phase_list (property_package self);
             tx = List.product (time self) ld;
             txp = List.product (time self) (List.product ld pl) in
         and_then
           (Inr (add_var self ''_enthalpy_flow'' (map k_txn txp) (Some 1)))
           (\<lambda>s1. and_then
             (add_constraint s1 ''enthalpy_flow_linking_constraint'' txp k_txn
                (enthalpy_flow_linking_constraint1 s1))
             (\<lambda>s2. and_then
               (add_derivative_var s2 ''enthalpy_flow_dx'' ''_enthalpy_flow'' ''length_domain'')
               (\<lambda>s3. and_then
                 (Inr (if has_holdup self
                       then add_var s3 ''energy_holdup'' (map k_txn txp) (Some 1)
                       else s3))
                 (\<lambda>s4. and_then
                   (if dynamic self
                    then add_derivative_var s4 ''energy_accumulation'' ''energy_holdup'' ''time''
                    else Inr s4)
                   (\<lambda>s5. and_then
                     (Inr (setattr s5 ''scaling_factor_energy'' (Param (1 / 1000000))))
                     (\<lambda>s6. and_then
                       (Inr (if has_heat_transfer
                             then add_var s6 ''heat'' (map k_tx tx) (Some 0) else s6))
                       (\<lambda>s7. and_then
                         (Inr (if has_work_transfer
                               then add_var s7 ''work'' (map k_tx tx) (Some 0) else s7))
                         (\<lambda>s8. and_then
                           (if has_heat_of_reaction
                            then add_expression s8 ''heat_of_reaction'' tx k_tx
                                   (\<lambda>i. heat_of_reaction s8 (reactions1 s8 \<noteq> None) (k_tx i))
                            else Inr s8)
                           (\<lambda>s9. and_then
                             (add_constraint s9 ''enthalpy_balances'' tx k_tx
                                (enthalpy_balances1 s9 ld has_heat_of_reaction
                                   has_heat_transfer has_work_transfer custom_term))
                             (\<lambda>s10.
                                if has_holdup self then
                                  and_then
                                    (Inr (if \<not> hasattr s10 ''phase_fraction''
                                          then add_phase_fractions1 s10 ld else s10))
                                    (\<lambda>s11. add_constraint s11 ''enthalpy_holdup_calculation''
                                              txp k_txn (enthalpy_holdup_calculation1 s11))
                                else Inr s10)))))))))))))"

text \<open>\<^verbatim>\<open>ControlVolume1DBlockData.add_total_pressure_balances\<close> and its rules.\<close>

definition pressure_linking_constraint1 :: "cv1 \<Rightarrow> real \<times> real \<Rightarrow> error + rule_result" where
  "pressure_linking_constraint1 b i =
     (if properties b = None then Inl AttributeError
      else Inr (Eqn (ERef ''pressure'' (k_tx i)) (EExt ''properties.pressure'' (k_tx i))))"

definition pressure_balance1 ::
    "cv1 \<Rightarrow> real list \<Rightarrow> bool \<Rightarrow> (key list \<Rightarrow> expr) option \<Rightarrow> real \<times> real \<Rightarrow>
     error + rule_result" where
  "pressure_balance1 b ld has_pressure_change custom_term i =
     (let t = fst i; x = snd i;
          sf = ERef ''scaling_factor_pressure'' []; len = ERef ''length'' [] in
      if (transformation_scheme b \<noteq> Some ''FORWARD'' \<and> x = hd ld) \<or>
         (transformation_scheme b = Some ''FORWARD'' \<and> x = last ld)
        then Inr Skip
      else
        (case flow_direction_term b of
           None \<Rightarrow> Inl AttributeError
         | Some fdt \<Rightarrow>
             if \<not> hasattr b ''length'' then Inl AttributeError
             else
               Inr (Eqn (ELit 0)
                 (EAdd (EAdd
                    (EMul (EMul (ELit (of_int fdt)) (ERef ''pressure_dx'' [Pt t, Pt x])) sf)
                    (EMul (EMul len (deltaP_term has_pressure_change [Pt t, Pt x])) sf))
                    (EMul (EMul len (user_term custom_term [Pt t, Pt x])) sf)))))"

definition add_total_pressure_balances1 ::
    "cv1 \<Rightarrow> bool \<Rightarrow> (key list \<Rightarrow> expr) option \<Rightarrow> cv1 outcome" where
  "add_total_pressure_balances1 self has_pressure_change custom_term =
     (case length_domain self of
        None \<Rightarrow> Inl (AttributeError, self)
      | Some ld \<Rightarrow>
          (let tx = List.product (time self) ld in
           and_then
             (Inr (add_var self ''pressure'' (map k_tx tx) (Some 100000)))
             (\<lambda>s1. and_then
               (add_constraint s1 ''pressure_linking_constraint'' tx k_tx
                  (pressure_linking_constraint1 s1))
               (\<lambda>s2. and_then
                 (add_derivative_var s2 ''pressure_dx'' ''pressure'' ''length_domain'')
                 (\<lambda>s3. and_then
                   (Inr (if has_pressure_change
                         then add_var s3 ''deltaP'' (map k_tx tx) (Some 0) else s3))
                   (\<lambda>s4. and_then
                     (Inr (setattr s4 ''scaling_factor_pressure'' (Param (1 / 10000))))
                     (\<lambda>s5. add_constraint s5 ''pressure_balance'' tx k_tx
                              (pressure_balance1 s5 ld has_pressure_change custom_term))))))))"


section \<open>Initialization\<close>

text \<open>
  What \<^verbatim>\<open>define_port_members()\<close> of the source state block returns: an ordered
  dictionary from names to state variables, scalar or indexed; a variable has a
  \<^verbatim>\<open>value\<close> (possibly \<^verbatim>\<open>None\<close>) and a \<^verbatim>\<open>fixed\<close> flag. \<open>state_args\<close> and the
  flags dictionaries have the same shape.
\<close>

record state_var =
  sv_value :: "real option"
  sv_fixed :: bool

datatype port_member = Scalar state_var | Indexed "(string \<times> state_var) list"

type_synonym state_dict = "(string \<times> port_member) list"

datatype arg_value = ArgScalar "real option" | ArgIndexed "(string \<times> real option) list"

type_synonym state_args = "(string \<times> arg_value) list"

datatype flag_value = FlagScalar bool | FlagIndexed "(string \<times> bool) list"

type_synonym flags = "(string \<times> flag_value) list"

text \<open>
  The routines of the state and reaction blocks are code of the packages. A call either
  returns or raises; for a raised exception only whether it is an instance of
  \<^verbatim>\<open>AttributeError\<close> matters to the control volume. The control volume's method is
  modelled for every behaviour of these routines, and records the calls it makes.
\<close>

datatype 'a ext_result = Raises bool | Returns 'a

record package_behaviour =
  in_initialize :: "state_args \<Rightarrow> bool \<Rightarrow> flags ext_result"
  out_initialize :: "state_args \<Rightarrow> bool \<Rightarrow> flags ext_result"
  reactions_initialize :: "unit ext_result"
  out_release_state :: "flags \<Rightarrow> unit ext_result"

datatype call =
    InitializeIn state_args bool
  | InitializeOut state_args bool
  | InitializeReactions bool
  | ReleaseOut flags

text \<open>
  The loop of the 0-D \<^verbatim>\<open>initialize\<close> (lines 1214 to 1220) that copies the current
  values into \<^verbatim>\<open>state_args\<close>.
\<close>

fun read_members :: "(string \<times> state_var) list \<Rightarrow> (string \<times> real option) list" where
  "read_members [] = []"
| "read_members (m # ms) = (fst m, sv_value (snd m)) # read_members ms"

fun read_state_args0 :: "state_dict \<Rightarrow> state_args" where
  "read_state_args0 [] = []"
| "read_state_args0 (k # ks) =
     (case snd k of
        Indexed ms \<Rightarrow> (fst k, ArgIndexed (read_members ms)) # read_state_args0 ks
      | Scalar v \<Rightarrow> (fst k, ArgScalar (sv_value v)) # read_state_args0 ks)"

text \<open>
  \<^verbatim>\<open>ControlVolume0DBlockData.initialize\<close>. The result is the list of calls made to
  the blocks, and the exception raised or the flags returned. The \<^verbatim>\<open>try\<close> around the
  initialization of the reaction block catches \<^verbatim>\<open>AttributeError\<close> only: a missing
  \<^verbatim>\<open>reactions\<close> attribute, or such an exception from the routine itself.
\<close>

definition initialize0 ::
    "cv0 \<Rightarrow> package_behaviour \<Rightarrow> state_dict \<Rightarrow> state_args option \<Rightarrow> bool \<Rightarrow>
     call list \<times> (error + flags)" where
  "initialize0 blk env state_dict state_args hold_state =
     (if properties_in blk = None then ([], Inl AttributeError)
      else
        (let args = (case state_args of None \<Rightarrow> read_state_args0 state_dict | Some a \<Rightarrow> a);
             tr1 = [InitializeIn args hold_state] in
         case in_initialize env args hold_state of
           Raises a \<Rightarrow> (tr1, Inl (Foreign a))
         | Returns in_flags \<Rightarrow>
             if properties_out blk = None then (tr1, Inl AttributeError)
             else
               (let tr2 = tr1 @ [InitializeOut args True] in
                case out_initialize env args True of
                  Raises a \<Rightarrow> (tr2, Inl (Foreign a))
                | Returns out_flags \<Rightarrow>
                    (let tr3 = (if reactions blk = None then tr2
                                else tr2 @ [InitializeReactions True]);
                         r = (if reactions blk = None then Returns ()
                              else reactions_initialize env) in
                     case r of
                       Raises False \<Rightarrow> (tr3, Inl (Foreign False))
                     | _ \<Rightarrow>
                         (let tr4 = tr3 @ [ReleaseOut out_flags] in
                          case out_release_state env out_flags of
                            Raises a \<Rightarrow> (tr4, Inl (Foreign a))
                          | Returns u \<Rightarrow> (tr4, Inr in_flags))))))"

text \<open>
  The first loop of the 1-D \<^verbatim>\<open>initialize\<close> (lines 1511 to 1532), taken when
  \<^verbatim>\<open>state_args\<close> is \<^verbatim>\<open>None\<close>: it records the \<^verbatim>\<open>fixed\<close> flag of each state
  variable, fixes it and copies its value, and raises \<^verbatim>\<open>Exception\<close> at a variable
  without a value. The result carries the state variables as the loop left them.
\<close>

fun fix_members ::
    "(string \<times> state_var) list \<Rightarrow>
     (error \<times> (string \<times> state_var) list) +
     ((string \<times> state_var) list \<times> (string \<times> real option) list \<times> (string \<times> bool) list)" where
  "fix_members [] = Inr ([], [], [])"
| "fix_members (m # ms) =
     (case sv_value (snd m) of
        None \<Rightarrow> Inl (PyException, m # ms)
      | Some v \<Rightarrow>
          (case fix_members ms of
             Inl (e, ms') \<Rightarrow> Inl (e, (fst m, (snd m)\<lparr>sv_fixed := True\<rparr>) # ms')
           | Inr (ms', args, fl) \<Rightarrow>
               Inr ((fst m, (snd m)\<lparr>sv_fixed := True\<rparr>) # ms',
                    (fst m, Some v) # args,
                    (fst m, sv_fixed (snd m)) # fl)))"

fun fix_source ::
    "state_dict \<Rightarrow> (error \<times> state_dict) + (state_dict \<times> state_args \<times> flags)" where
  "fix_source [] = Inr ([], [], [])"
| "fix_source (k # ks) =
     (case snd k of
        Indexed ms \<Rightarrow>
          (case fix_members ms of
             Inl (e, ms') \<Rightarrow> Inl (e, (fst k, Indexed ms') # ks)
           | Inr (ms', margs, mfl) \<Rightarrow>
               (case fix_source ks of
                  Inl (e, ks') \<Rightarrow> Inl (e, (fst k, Indexed ms') # ks')
                | Inr (ks', args, fl) \<Rightarrow>
                    Inr ((fst k, Indexed ms') # ks',
                         (fst k, ArgIndexed margs) # args,
                         (fst k, FlagIndexed mfl) # fl)))
      | Scalar v \<Rightarrow>
          (case sv_value v of
             None \<Rightarrow> Inl (PyException, k # ks)
           | Some c \<Rightarrow>
               (case fix_source ks of
                  Inl (e, ks') \<Rightarrow> Inl (e, (fst k, Scalar (v\<lparr>sv_fixed := True\<rparr>)) # ks')
                | Inr (ks', args, fl) \<Rightarrow>
                    Inr ((fst k, Scalar (v\<lparr>sv_fixed := True\<rparr>)) # ks',
                         (fst k, ArgScalar (Some c)) # args,
                         (fst k, FlagScalar (sv_fixed v)) # fl))))"

text \<open>
  The second loop (lines 1537 to 1549), taken when \<^verbatim>\<open>state_args\<close> is given:
  \<^verbatim>\<open>fix(v)\<close> sets the value and the flag, \<^verbatim>\<open>fix()\<close> the flag only.
\<close>

fun fix_members_given ::
    "(string \<times> real option) list option \<Rightarrow> (string \<times> state_var) list \<Rightarrow>
     (error \<times> (string \<times> state_var) list) + ((string \<times> state_var) list \<times> (string \<times> bool) list)" where
  "fix_members_given margs [] = Inr ([], [])"
| "fix_members_given margs (m # ms) =
     (if sv_fixed (snd m) then
        (case fix_members_given margs ms of
           Inl (e, ms') \<Rightarrow> Inl (e, m # ms')
         | Inr (ms', fl) \<Rightarrow> Inr (m # ms', (fst m, True) # fl))
      else
        (case (case margs of None \<Rightarrow> None | Some a \<Rightarrow> map_of a (fst m)) of
           None \<Rightarrow> Inl (KeyError, m # ms)
         | Some v \<Rightarrow>
             (case fix_members_given margs ms of
                Inl (e, ms') \<Rightarrow> Inl (e, (fst m, \<lparr>sv_value = v, sv_fixed = True\<rparr>) # ms')
              | Inr (ms', fl) \<Rightarrow>
                  Inr ((fst m, \<lparr>sv_value = v, sv_fixed = True\<rparr>) # ms',
                       (fst m, False) # fl))))"

fun fix_source_given ::
    "state_args \<Rightarrow> state_dict \<Rightarrow> (error \<times> state_dict) + (state_dict \<times> flags)" where
  "fix_source_given args [] = Inr ([], [])"
| "fix_source_given args (k # ks) =
     (case snd k of
        Indexed ms \<Rightarrow>
          (case fix_members_given
                  (case map_of args (fst k) of Some (ArgIndexed a) \<Rightarrow> Some a | _ \<Rightarrow> None) ms of
             Inl (e, ms') \<Rightarrow> Inl (e, (fst k, Indexed ms') # ks)
           | Inr (ms', mfl) \<Rightarrow>
               (case fix_source_given args ks of
                  Inl (e, ks') \<Rightarrow> Inl (e, (fst k, Indexed ms') # ks')
                | Inr (ks', fl) \<Rightarrow>
                    Inr ((fst k, Indexed ms') # ks', (fst k, FlagIndexed mfl) # fl)))
      | Scalar v \<Rightarrow>
          (let v' = (if sv_value v \<noteq> None then v\<lparr>sv_fixed := True\<rparr> else v) in
           case fix_source_given args ks of
             Inl (e, ks') \<Rightarrow> Inl (e, (fst k, Scalar v') # ks')
           | Inr (ks', fl) \<Rightarrow>
               Inr ((fst k, Scalar v') # ks', (fst k, FlagScalar (sv_fixed v)) # fl)))"

text \<open>\<^verbatim>\<open>ControlVolume1DBlockData.release_state\<close>: the flags are written back.\<close>

fun release_members ::
    "(string \<times> bool) list option \<Rightarrow> (string \<times> state_var) list \<Rightarrow>
     (error \<times> (string \<times> state_var) list) + (string \<times> state_var) list" where
  "release_members mfl [] = Inr []"
| "release_members mfl (m # ms) =
     (case (case mfl of None \<Rightarrow> None | Some a \<Rightarrow> map_of a (fst m)) of
        None \<Rightarrow> Inl (KeyError, m # ms)
      | Some f \<Rightarrow>
          (case release_members mfl ms of
             Inl (e, ms') \<Rightarrow> Inl (e, (fst m, (snd m)\<lparr>sv_fixed := f\<rparr>) # ms')
           | Inr ms' \<Rightarrow> Inr ((fst m, (snd m)\<lparr>sv_fixed := f\<rparr>) # ms')))"

fun release_state1 :: "flags \<Rightarrow> state_dict \<Rightarrow> (error \<times> state_dict) + state_dict" where
  "release_state1 fl [] = Inr []"
| "release_state1 fl (k # ks) =
     (case snd k of
        Indexed ms \<Rightarrow>
          (case release_members
                  (case map_of fl (fst k) of Some (FlagIndexed a) \<Rightarrow> Some a | _ \<Rightarrow> None) ms of
             Inl (e, ms') \<Rightarrow> Inl (e, (fst k, Indexed ms') # ks)
           | Inr ms' \<Rightarrow>
               (case release_state1 fl ks of
                  Inl (e, ks') \<Rightarrow> Inl (e, (fst k, Indexed ms') # ks')
                | Inr ks' \<Rightarrow> Inr ((fst k, Indexed ms') # ks')))
      | Scalar v \<Rightarrow>
          (case map_of fl (fst k) of
             Some (FlagScalar f) \<Rightarrow>
               (case release_state1 fl ks of
                  Inl (e, ks') \<Rightarrow> Inl (e, (fst k, Scalar (v\<lparr>sv_fixed := f\<rparr>)) # ks')
                | Inr ks' \<Rightarrow> Inr ((fst k, Scalar (v\<lparr>sv_fixed := f\<rparr>)) # ks'))
           | _ \<Rightarrow> Inl (KeyError, k # ks)))"

text \<open>
  \<^verbatim>\<open>ControlVolume1DBlockData.initialize\<close>. The one state-block collection plays both
  parts, so \<open>out_initialize\<close> and \<open>out_release_state\<close> stand for
  \<^verbatim>\<open>blk.properties.initialize\<close> and \<^verbatim>\<open>blk.properties.release_state\<close>. The result is
  the calls made, the source state variables at the end, and the exception raised or the
  value returned (the source flags, or \<^verbatim>\<open>None\<close>).
\<close>

definition initialize1 ::
    "cv1 \<Rightarrow> package_behaviour \<Rightarrow> state_dict \<Rightarrow> state_args option \<Rightarrow> bool \<Rightarrow>
     call list \<times> state_dict \<times> (error + flags option)" where
  "initialize1 blk env state_dict state_args hold_state =
     (if flow_direction blk = None \<or> length_domain blk = None \<or> properties blk = None
        then ([], state_dict, Inl AttributeError)
      else
        (case (case state_args of
                 None \<Rightarrow> fix_source state_dict
               | Some a \<Rightarrow>
                   (case fix_source_given a state_dict of
                      Inl x \<Rightarrow> Inl x
                    | Inr (sd, fl) \<Rightarrow> Inr (sd, a, fl))) of
           Inl (e, sd) \<Rightarrow> ([], sd, Inl e)
         | Inr (sd, args, source_flags) \<Rightarrow>
             (let tr1 = [InitializeOut args True] in
              case out_initialize env args True of
                Raises a \<Rightarrow> (tr1, sd, Inl (Foreign a))
              | Returns fl \<Rightarrow>
                  (let tr2 = (if reactions1 blk = None then tr1
                              else tr1 @ [InitializeReactions True]);
                       r = (if reactions1 blk = None then Returns ()
                            else reactions_initialize env) in
                   case r of
                     Raises False \<Rightarrow> (tr2, sd, Inl (Foreign False))
                   | _ \<Rightarrow>
                       (let tr3 = tr2 @ [ReleaseOut fl] in
                        case out_release_state env fl of
                          Raises a \<Rightarrow> (tr3, sd, Inl (Foreign a))
                        | Returns u \<Rightarrow>
                            if hold_state then (tr3, sd, Inr (Some source_flags))
                            else
                              (case release_state1 source_flags sd of
                                 Inl (e, sd') \<Rightarrow> (tr3, sd', Inl e)
                               | Inr sd' \<Rightarrow> (tr3, sd', Inr None)))))))"


section \<open>Notions used to state the properties\<close>


text \<open>
  The signed indicator of a phase-equilibrium reaction \<open>r\<close> for phase \<open>p\<close> and component
  \<open>j\<close> in words: \<open>+1\<close> when the target component of \<open>r\<close> is \<open>j\<close> and \<open>p\<close> is the first
  phase of its pair, \<open>-1\<close> when the target is \<open>j\<close> and \<open>p\<close> is the second phase, \<open>0\<close>
  otherwise. The cases are read in this order.
\<close>

definition signed_indicator ::
    "(string \<rightharpoonup> (string \<times> (string \<times> string))) \<Rightarrow> string \<Rightarrow> string \<Rightarrow> string \<Rightarrow> real" where
  "signed_indicator pel r p j =
     (case pel r of
        None \<Rightarrow> 0
      | Some e \<Rightarrow>
          if fst e = j \<and> fst (snd e) = p then 1
          else if fst e = j \<and> snd (snd e) = p then - 1
          else 0)"

text \<open>
  The additive terms of a side of an equation, and what it means for a term to be
  multiplied by a scaling factor.
\<close>

fun additive_terms :: "expr \<Rightarrow> expr list" where
  "additive_terms (EAdd a b) = additive_terms a @ additive_terms b"
| "additive_terms (ESub a b) = additive_terms a @ additive_terms b"
| "additive_terms e = [e]"

fun scaled_by :: "expr \<Rightarrow> expr \<Rightarrow> bool" where
  "scaled_by sf (EMul a b) = (b = sf)"
| "scaled_by sf e = False"


section \<open>Example control volumes\<close>

definition pp_example :: property_package where
  "pp_example =
     \<lparr>state_block_class = True,
      phase_list = [''Liq'', ''Vap''],
      component_list = [''a'', ''b''],
      phase_component_set = [(''Liq'', ''a''), (''Liq'', ''b''), (''Vap'', ''a''), (''Vap'', ''b'')],
      phase_equilibrium_idx = Some [''e1'', ''e2''],
      phase_equilibrium_list =
        [''e1'' \<mapsto> (''a'', (''Liq'', ''Vap'')), ''e2'' \<mapsto> (''b'', (''Liq'', ''Vap''))],
      element_list = Some [''H'', ''O''],
      material_flow_basis = molar,
      mw_supported = True\<rparr>"

definition rp_example :: reaction_package where
  "rp_example =
     \<lparr>reaction_block_class = True,
      rate_reaction_idx = Some [''r1''],
      equilibrium_reaction_idx = Some [''q1'']\<rparr>"

definition sbc_example :: sb_config where
  "sbc_example =
     \<lparr>sb_has_phase_equilibrium = PyBool True, sb_defined_state = True, sb_package_args = []\<rparr>"

definition rbc_example :: rb_config where
  "rbc_example = \<lparr>rb_has_equilibrium = PyBool True, rb_package_args = []\<rparr>"

text \<open>A 0-D control volume as \<^verbatim>\<open>build\<close> leaves it, before any block is added.\<close>

definition cv0_new :: cv0 where
  "cv0_new =
     \<lparr>dynamic = False, has_holdup = False,
      property_package = pp_example, property_package_args = [],
      reaction_package = Some rp_example, reaction_package_args = [],
      time = [0], attrs = Map.empty,
      properties_in = None, properties_out = None, reactions = None\<rparr>"

text \<open>
  A dynamic 0-D control volume with holdup, after \<^verbatim>\<open>add_geometry\<close>,
  \<^verbatim>\<open>add_state_blocks\<close> and \<^verbatim>\<open>add_reaction_blocks\<close>.
\<close>

definition cv0_ready :: cv0 where
  "cv0_ready =
     \<lparr>dynamic = True, has_holdup = True,
      property_package = pp_example, property_package_args = [],
      reaction_package = Some rp_example, reaction_package_args = [],
      time = [0], attrs = [''volume'' \<mapsto> Var [[Pt 0]] (Some 1)],
      properties_in = Some [([Pt 0], sbc_example)],
      properties_out = Some [([Pt 0], sbc_example\<lparr>sb_defined_state := False\<rparr>)],
      reactions = Some [([Pt 0], rbc_example)]\<rparr>"

text \<open>The same without holdup and at steady state.\<close>

definition cv0_steady :: cv0 where
  "cv0_steady = cv0_ready\<lparr>dynamic := False, has_holdup := False\<rparr>"

text \<open>A 1-D control volume as \<^verbatim>\<open>build\<close> leaves it.\<close>

definition cv1_new :: cv1 where
  "cv1_new =
     \<lparr>dynamic = False, has_holdup = False,
      property_package = pp_example, property_package_args = [],
      reaction_package = Some rp_example, reaction_package_args = [],
      time = [0], attrs = Map.empty,
      transformation_scheme = Some ''BACKWARD'', area_definition = uniform,
      length_domain = None, flow_direction = None, flow_direction_term = None,
      properties = None, reactions1 = None\<rparr>"

text \<open>
  A dynamic 1-D control volume with holdup on the domain \<open>[0, 1/2, 1]\<close>, after
  \<^verbatim>\<open>add_geometry\<close>, \<^verbatim>\<open>add_state_blocks\<close> and \<^verbatim>\<open>add_reaction_blocks\<close>.
\<close>

definition cv1_ready :: cv1 where
  "cv1_ready =
     \<lparr>dynamic = True, has_holdup = True,
      property_package = pp_example, property_package_args = [],
      reaction_package = Some rp_example, reaction_package_args = [],
      time = [0],
      attrs = [''area'' \<mapsto> Var [] (Some 1), ''length'' \<mapsto> Var [] (Some 1)],
      transformation_scheme = Some ''BACKWARD'', area_definition = uniform,
      length_domain = Some [0, 1 / 2, 1], flow_direction = Some forward,
      flow_direction_term = Some (- 1),
      properties = Some [([Pt 0, Pt 0], sbc_example),
                         ([Pt 0, Pt (1 / 2)], sbc_example\<lparr>sb_defined_state := False\<rparr>),
                         ([Pt 0, Pt 1], sbc_example\<lparr>sb_defined_state := False\<rparr>)],
      reactions1 = Some [([Pt 0, Pt 0], rbc_example),
                         ([Pt 0, Pt (1 / 2)], rbc_example),
                         ([Pt 0, Pt 1], rbc_example)]\<rparr>"

text \<open>Package routines that return, and the same with a failing reaction initialization.\<close>

definition env_ok :: package_behaviour where
  "env_ok =
     \<lparr>in_initialize = (\<lambda>a h. Returns [(''flow_mol'', FlagScalar False)]),
      out_initialize = (\<lambda>a h. Returns [(''flow_mol'', FlagScalar False)]),
      reactions_initialize = Returns (),
      out_release_state = (\<lambda>f. Returns ())\<rparr>"

definition env_failing :: package_behaviour where
  "env_failing = env_ok\<lparr>reactions_initialize := Raises False\<rparr>"

text \<open>State variables of a source block: one without a value, and one with values.\<close>

definition sd_unset :: state_dict where
  "sd_unset =
     [(''flow_mol'', Scalar \<lparr>sv_value = Some 5, sv_fixed = False\<rparr>),
      (''temperature'', Scalar \<lparr>sv_value = None, sv_fixed = False\<rparr>)]"

definition sd_set :: state_dict where
  "sd_set =
     [(''flow_mol'', Scalar \<lparr>sv_value = Some 5, sv_fixed = False\<rparr>),
      (''mole_frac'', Indexed [(''a'', \<lparr>sv_value = Some (1 / 2), sv_fixed = True\<rparr>),
                               (''b'', \<lparr>sv_value = Some (1 / 2), sv_fixed = False\<rparr>)])]"


text \<open>A source state dictionary in which some state variable has no value.\<close>

fun has_unset :: "state_dict \<Rightarrow> bool" where
  "has_unset [] = False"
| "has_unset (k # ks) =
     ((case snd k of
         Scalar v \<Rightarrow> sv_value v = None
       | Indexed ms \<Rightarrow> list_ex (\<lambda>m. sv_value (snd m) = None) ms) \<or> has_unset ks)"


section \<open>What a call writes\<close>

text \<open>
  \<open>writes G L U s s'\<close>: the control volume \<open>s'\<close> is \<open>s\<close> with some attributes assigned and
  nothing else changed; every name in \<open>L\<close> has been assigned, no name outside \<open>U\<close> has,
  and every assigned component satisfies \<open>G\<close>. \<open>writes_out\<close> says this of a call that
  returns.
\<close>

definition writes ::
    "(string \<Rightarrow> component \<Rightarrow> bool) \<Rightarrow> string set \<Rightarrow> string set \<Rightarrow>
     'a cv_base_scheme \<Rightarrow> 'a cv_base_scheme \<Rightarrow> bool" where
  "writes G L U s s' =
     (\<exists>m. s' = s\<lparr>attrs := attrs s ++ m\<rparr> \<and> L \<subseteq> dom m \<and> dom m \<subseteq> U
          \<and> (\<forall>n c. m n = Some c \<longrightarrow> G n c))"

definition writes_out ::
    "(string \<Rightarrow> component \<Rightarrow> bool) \<Rightarrow> string set \<Rightarrow> string set \<Rightarrow>
     'a cv_base_scheme \<Rightarrow> 'a cv_base_scheme outcome \<Rightarrow> bool" where
  "writes_out G L U s r = (case r of Inl x \<Rightarrow> True | Inr s' \<Rightarrow> writes G L U s s')"






abbreviation energy_names ::
    "bool \<Rightarrow> bool \<Rightarrow> bool \<Rightarrow> bool \<Rightarrow> bool \<Rightarrow> string set \<Rightarrow> string set" where
  "energy_names hh dyn hor ht wt pf \<equiv>
     (if hh then {''energy_holdup''} else {})
      \<union> ((if dyn then {''energy_accumulation''} else {})
      \<union> ({''scaling_factor_energy''}
      \<union> ((if ht then {''heat''} else {})
      \<union> ((if wt then {''work''} else {})
      \<union> ((if hor then {''heat_of_reaction''} else {})
      \<union> ({''enthalpy_balances''}
      \<union> (if hh then pf \<union> {''enthalpy_holdup_calculation''} else {})))))))"


abbreviation pressure_names :: "bool \<Rightarrow> string set" where
  "pressure_names hpc \<equiv>
     (if hpc then {''deltaP''} else {})
      \<union> ({''scaling_factor_pressure''} \<union> {''pressure_balance''})"

text \<open>
  The equations of a constraint whose additive terms are all multiplied by \<open>sf\<close>; with
  \<open>zero_lhs\<close> the left-hand side is the literal 0 and only the right-hand side has terms.
\<close>

definition scaled_rows :: "bool \<Rightarrow> expr \<Rightarrow> (key list \<times> expr \<times> expr) list \<Rightarrow> bool" where
  "scaled_rows zero_lhs sf rows =
     list_all (\<lambda>row.
       if zero_lhs
       then fst (snd row) = ELit 0 \<and> list_all (scaled_by sf) (additive_terms (snd (snd row)))
       else list_all (scaled_by sf)
              (additive_terms (fst (snd row)) @ additive_terms (snd (snd row)))) rows"

definition scaled_balance ::
    "string \<Rightarrow> string \<Rightarrow> real \<Rightarrow> bool \<Rightarrow> string \<Rightarrow> component \<Rightarrow> bool" where
  "scaled_balance sfn cn d zero_lhs n c =
     ((n = sfn \<longrightarrow> c = Param d) \<and>
      (n = cn \<longrightarrow> (case c of Constraint rows \<Rightarrow> scaled_rows zero_lhs (ERef sfn []) rows
                     | _ \<Rightarrow> False)))"

text \<open>The entry of the dictionary \<^verbatim>\<open>sd\<close> for a reaction index of the package.\<close>

definition sd_entry ::
    "(string \<rightharpoonup> (string \<times> (string \<times> string))) \<Rightarrow> string \<Rightarrow> string \<Rightarrow> string \<Rightarrow> int" where
  "sd_entry pel r p j =
     (case pel r of
        None \<Rightarrow> 0
      | Some e \<Rightarrow>
          if fst e = j
          then (if fst (snd e) = p then 1 else if snd (snd e) = p then - 1 else 0)
          else 0)"


text \<open>The two control volumes over a property package with a single phase.\<close>

definition cv0_single :: cv0 where
  "cv0_single = cv0_ready\<lparr>property_package := pp_example\<lparr>phase_list := [''Liq'']\<rparr>\<rparr>"

definition cv1_single :: cv1 where
  "cv1_single = cv1_ready\<lparr>property_package := pp_example\<lparr>phase_list := [''Liq'']\<rparr>\<rparr>"

section \<open>Theorems\<close>

subsection \<open>Unsupported balance types\<close>

text \<open>
  C2. On the 0-D and on the 1-D control volume, each of
  \<^verbatim>\<open>add_total_material_balances\<close>, \<^verbatim>\<open>add_phase_enthalpy_balances\<close>,
  \<^verbatim>\<open>add_phase_energy_balances\<close>, \<^verbatim>\<open>add_total_energy_balances\<close>,
  \<^verbatim>\<open>add_phase_pressure_balances\<close>, \<^verbatim>\<open>add_phase_momentum_balances\<close> and
  \<^verbatim>\<open>add_total_momentum_balances\<close>, called with any positional and keyword arguments,
  raises \<^verbatim>\<open>BalanceTypeNotSupportedError\<close>, and the control volume at the raise is the
  one the method was called on: no variable or constraint has been added.
\<close>

theorem unsupported_balances_raise:
  "add_total_material_balances0 s0 args kwargs = Inl (BalanceTypeNotSupportedError, s0)
   \<and> add_phase_enthalpy_balances0 s0 args kwargs = Inl (BalanceTypeNotSupportedError, s0)
   \<and> add_phase_energy_balances0 s0 args kwargs = Inl (BalanceTypeNotSupportedError, s0)
   \<and> add_total_energy_balances0 s0 args kwargs = Inl (BalanceTypeNotSupportedError, s0)
   \<and> add_phase_pressure_balances0 s0 args kwargs = Inl (BalanceTypeNotSupportedError, s0)
   \<and> add_phase_momentum_balances0 s0 args kwargs = Inl (BalanceTypeNotSupportedError, s0)
   \<and> add_total_momentum_balances0 s0 args kwargs = Inl (BalanceTypeNotSupportedError, s0)
   \<and> add_total_material_balances1 s1 args kwargs = Inl (BalanceTypeNotSupportedError, s1)
   \<and> add_phase_enthalpy_balances1 s1 args kwargs = Inl (BalanceTypeNotSupportedError, s1)
   \<and> add_phase_energy_balances1 s1 args kwargs = Inl (BalanceTypeNotSupportedError, s1)
   \<and> add_total_energy_balances1 s1 args kwargs = Inl (BalanceTypeNotSupportedError, s1)
   \<and> add_phase_pressure_balances1 s1 args kwargs = Inl (BalanceTypeNotSupportedError, s1)
   \<and> add_phase_momentum_balances1 s1 args kwargs = Inl (BalanceTypeNotSupportedError, s1)
   \<and> add_total_momentum_balances1 s1 args kwargs = Inl (BalanceTypeNotSupportedError, s1)"
  by (simp add: add_total_material_balances0_def add_phase_enthalpy_balances0_def
      add_phase_energy_balances0_def add_total_energy_balances0_def
      add_phase_pressure_balances0_def add_phase_momentum_balances0_def
      add_total_momentum_balances0_def add_total_material_balances1_def
      add_phase_enthalpy_balances1_def add_phase_energy_balances1_def
      add_total_energy_balances1_def add_phase_pressure_balances1_def
      add_phase_momentum_balances1_def add_total_momentum_balances1_def)

subsection \<open>Validation of the equilibrium flags\<close>

text \<open>
  C10, as the code has it. On both control-volume variants, \<^verbatim>\<open>add_state_blocks\<close>
  raises \<^verbatim>\<open>ConfigurationError\<close>, with the control volume unchanged (no state block
  constructed), whenever \<^verbatim>\<open>has_phase_equilibrium\<close> is not equal, by Python's
  \<^verbatim>\<open>==\<close>, to \<^verbatim>\<open>True\<close> or to \<^verbatim>\<open>False\<close>; this covers the omitted argument
  \<^verbatim>\<open>None\<close>. \<^verbatim>\<open>add_reaction_blocks\<close> does the same for \<^verbatim>\<open>has_equilibrium\<close>.
\<close>

theorem flag_validation:
  assumes "\<not> py_in v [PyBool True, PyBool False]"
  shows "add_state_blocks0 s0 fi v = Inl (ConfigurationError, s0)
       \<and> add_state_blocks1 s1 fi v = Inl (ConfigurationError, s1)
       \<and> add_reaction_blocks0 s0 v = Inl (ConfigurationError, s0)
       \<and> add_reaction_blocks1 s1 v = Inl (ConfigurationError, s1)"
  using assms
  by (simp add: add_state_blocks0_def add_state_blocks1_def add_reaction_blocks0_def
      add_reaction_blocks1_def)

text \<open>The theorem at \<^verbatim>\<open>None\<close> and at the string \<^verbatim>\<open>"foo"\<close>.\<close>

theorem flag_validation_witness:
  "\<not> py_in PyNone [PyBool True, PyBool False]
   \<and> \<not> py_in (PyStr ''foo'') [PyBool True, PyBool False]
   \<and> add_state_blocks0 cv0_new (PyFlowDirection forward) PyNone = Inl (ConfigurationError, cv0_new)
   \<and> add_state_blocks1 cv1_new (PyFlowDirection forward) (PyStr ''foo'') = Inl (ConfigurationError, cv1_new)
   \<and> add_reaction_blocks0 cv0_new (PyStr ''foo'') = Inl (ConfigurationError, cv0_new)
   \<and> add_reaction_blocks1 cv1_new PyNone = Inl (ConfigurationError, cv1_new)"
proof -
  have a: "\<not> py_in PyNone [PyBool True, PyBool False]" by simp
  have b: "\<not> py_in (PyStr ''foo'') [PyBool True, PyBool False]" by simp
  show ?thesis
    using a b flag_validation [OF a, of cv0_new "PyFlowDirection forward" cv1_new]
      flag_validation [OF b, of cv0_new "PyFlowDirection forward" cv1_new]
    by simp
qed

text \<open>
  The integer \<open>1\<close> is a value other than the booleans, and it is accepted: the test
  \<^verbatim>\<open>has_phase_equilibrium not in [True, False]\<close> compares with \<^verbatim>\<open>==\<close>, and
  \<^verbatim>\<open>1 == True\<close>. The state blocks are built with the integer in their configuration.
\<close>

theorem integer_flag_accepted:
  "add_state_blocks0 cv0_new (PyFlowDirection forward) (PyInt 1) =
     Inr (cv0_new\<lparr>properties_in :=
            Some [([Pt 0], \<lparr>sb_has_phase_equilibrium = PyInt 1, sb_defined_state = True,
                            sb_package_args = []\<rparr>)],
          properties_out :=
            Some [([Pt 0], \<lparr>sb_has_phase_equilibrium = PyInt 1, sb_defined_state = False,
                            sb_package_args = []\<rparr>)]\<rparr>)"
  by (simp add: add_state_blocks0_def build_state_blocks0_def cv0_new_def pp_example_def)

subsection \<open>Element balances reject reaction terms\<close>

text \<open>
  C7, as the code has it. On both variants, \<^verbatim>\<open>add_total_element_balances\<close> called with
  \<^verbatim>\<open>has_rate_reactions\<close>, \<^verbatim>\<open>has_equilibrium_reactions\<close> or
  \<^verbatim>\<open>has_phase_equilibrium\<close> set raises before any variable or constraint is created:
  the control volume at the raise is the one the method was called on. The exception is
  \<^verbatim>\<open>ConfigurationError\<close> when the property package has an \<^verbatim>\<open>element_list\<close>; without
  one, the check of the package comes first and raises \<^verbatim>\<open>PropertyNotSupportedError\<close>.
\<close>

theorem element_balances_reject_reactions:
  assumes "has_rate_reactions \<or> has_equilibrium_reactions \<or> has_phase_equilibrium"
  shows "add_total_element_balances0 s0 has_rate_reactions has_equilibrium_reactions
           has_phase_equilibrium has_mass_transfer custom =
         Inl (if element_list (property_package s0) = None then PropertyNotSupportedError
              else ConfigurationError, s0)
       \<and> add_total_element_balances1 s1 has_rate_reactions has_equilibrium_reactions
           has_phase_equilibrium has_mass_transfer custom =
         Inl (if element_list (property_package s1) = None then PropertyNotSupportedError
              else ConfigurationError, s1)"
  using assms
  by (auto simp add: add_total_element_balances0_def add_total_element_balances1_def
      split: option.splits)

text \<open>The theorem with \<^verbatim>\<open>has_rate_reactions=True\<close> on a package with elements.\<close>

theorem element_balances_reject_reactions_witness:
  "add_total_element_balances0 cv0_ready True False False False None =
     Inl (ConfigurationError, cv0_ready)
   \<and> add_total_element_balances1 cv1_ready True False False False None =
     Inl (ConfigurationError, cv1_ready)"
  using element_balances_reject_reactions [of True False False cv0_ready False None cv1_ready]
  by (simp add: cv0_ready_def cv1_ready_def pp_example_def)

text \<open>
  With a property package that has no \<^verbatim>\<open>element_list\<close>, the call with
  \<^verbatim>\<open>has_rate_reactions=True\<close> does not raise a configuration error.
\<close>

theorem element_balances_without_element_list:
  "add_total_element_balances0
     (cv0_ready\<lparr>property_package := pp_example\<lparr>element_list := None\<rparr>\<rparr>)
     True False False False None =
   Inl (PropertyNotSupportedError,
        cv0_ready\<lparr>property_package := pp_example\<lparr>element_list := None\<rparr>\<rparr>)"
  by (simp add: add_total_element_balances0_def)


subsection \<open>Initialization of the 0-D control volume\<close>

text \<open>
  C8, as the code has it. \<^verbatim>\<open>initialize\<close> of the 0-D control volume calls
  \<^verbatim>\<open>properties_out.release_state\<close> with the flags that the initialization of the
  outlet returned exactly when both state-block initializations return and the
  initialization of the reaction block returns, is absent, or raises an
  \<^verbatim>\<open>AttributeError\<close> (which the method catches). When \<^verbatim>\<open>initialize\<close> returns, the
  release of the outlet was its last call, the inlet was initialized with the caller's
  \<^verbatim>\<open>hold_state\<close>, and the value returned is the inlet's flags. Any other exception of
  a step leaves the method with the outlet not released.
\<close>

theorem outlet_release:
  "((ReleaseOut fl \<in> set (fst (initialize0 blk env sd sa hold_state))) =
     (properties_in blk \<noteq> None \<and> properties_out blk \<noteq> None
      \<and> (\<exists>f. in_initialize env (case sa of None \<Rightarrow> read_state_args0 sd | Some a \<Rightarrow> a)
                hold_state = Returns f)
      \<and> out_initialize env (case sa of None \<Rightarrow> read_state_args0 sd | Some a \<Rightarrow> a) True
          = Returns fl
      \<and> (reactions blk = None \<or> reactions_initialize env \<noteq> Raises False)))
   \<and> (snd (initialize0 blk env sd sa hold_state) = Inr f \<longrightarrow>
        in_initialize env (case sa of None \<Rightarrow> read_state_args0 sd | Some a \<Rightarrow> a) hold_state
          = Returns f
        \<and> InitializeIn (case sa of None \<Rightarrow> read_state_args0 sd | Some a \<Rightarrow> a) hold_state
            \<in> set (fst (initialize0 blk env sd sa hold_state))
        \<and> (\<exists>g. out_initialize env (case sa of None \<Rightarrow> read_state_args0 sd | Some a \<Rightarrow> a) True
                  = Returns g
               \<and> last (fst (initialize0 blk env sd sa hold_state)) = ReleaseOut g))"
  by (auto simp add: initialize0_def Let_def split: ext_result.splits option.splits bool.splits)

text \<open>The theorem on a control volume whose package routines all return.\<close>

theorem outlet_release_witness:
  "ReleaseOut [(''flow_mol'', FlagScalar False)]
     \<in> set (fst (initialize0 cv0_ready env_ok sd_set None True))
   \<and> snd (initialize0 cv0_ready env_ok sd_set None True) = Inr [(''flow_mol'', FlagScalar False)]
   \<and> last (fst (initialize0 cv0_ready env_ok sd_set None True))
       = ReleaseOut [(''flow_mol'', FlagScalar False)]"
  using outlet_release [of "[(''flow_mol'', FlagScalar False)]" cv0_ready env_ok sd_set None True
      "[(''flow_mol'', FlagScalar False)]"]
  by (simp add: initialize0_def Let_def cv0_ready_def env_ok_def)

text \<open>
  When the initialization of the reaction block fails with an exception that is not an
  \<^verbatim>\<open>AttributeError\<close>, the outlet has been initialized with \<^verbatim>\<open>hold_state=True\<close> and
  \<^verbatim>\<open>initialize\<close> ends with that exception, without a call of the outlet's
  \<^verbatim>\<open>release_state\<close>.
\<close>

theorem outlet_not_released_on_failure:
  "out_initialize env_failing (read_state_args0 sd_set) True
     = Returns [(''flow_mol'', FlagScalar False)]
   \<and> initialize0 cv0_ready env_failing sd_set None True =
       ([InitializeIn (read_state_args0 sd_set) True,
         InitializeOut (read_state_args0 sd_set) True,
         InitializeReactions True],
        Inl (Foreign False))"
  by (simp add: initialize0_def Let_def cv0_ready_def env_ok_def env_failing_def)

subsection \<open>State variables without a value\<close>

text \<open>
  C9 says that \<^verbatim>\<open>initialize\<close> without \<^verbatim>\<open>state_args\<close> fails when a state variable
  of the source has the value \<^verbatim>\<open>None\<close>. The 0-D method does not: with the variable
  \<^verbatim>\<open>temperature\<close> unset it copies \<^verbatim>\<open>None\<close> into \<^verbatim>\<open>state_args\<close>, passes it to
  the initialization of both state blocks, and returns.
\<close>

theorem initialize0_accepts_unset_state:
  "initialize0 cv0_ready env_ok sd_unset None True =
     ([InitializeIn [(''flow_mol'', ArgScalar (Some 5)), (''temperature'', ArgScalar None)] True,
       InitializeOut [(''flow_mol'', ArgScalar (Some 5)), (''temperature'', ArgScalar None)] True,
       InitializeReactions True,
       ReleaseOut [(''flow_mol'', FlagScalar False)]],
      Inr [(''flow_mol'', FlagScalar False)])"
  by (simp add: initialize0_def Let_def cv0_ready_def env_ok_def sd_unset_def)

text \<open>
  The 1-D method does what the claim says: with an unset state variable it raises
  \<^verbatim>\<open>Exception\<close> before any block is initialized.
\<close>

lemma fix_members_unset:
  "list_ex (\<lambda>m. sv_value (snd m) = None) ms \<Longrightarrow> \<exists>ms'. fix_members ms = Inl (PyException, ms')"
  by (induction ms) (auto split: option.splits sum.splits)

lemma fix_members_error:
  "fix_members ms = Inl (e, ms') \<Longrightarrow> e = PyException"
  by (induction ms arbitrary: ms') (auto split: option.splits sum.splits)

lemma fix_source_unset:
  "has_unset sd \<Longrightarrow> \<exists>sd'. fix_source sd = Inl (PyException, sd')"
proof (induction sd)
  case Nil
  then show ?case by simp
next
  case (Cons k ks)
  show ?case
  proof (cases "snd k")
    case (Scalar v)
    then show ?thesis using Cons by (auto split: option.splits sum.splits)
  next
    case (Indexed ms)
    show ?thesis
    proof (cases "list_ex (\<lambda>m. sv_value (snd m) = None) ms")
      case True
      from fix_members_unset [OF True] show ?thesis using Indexed by auto
    next
      case False
      then have "has_unset ks" using Cons.prems Indexed by simp
      from Cons.IH [OF this] show ?thesis using Indexed
        by (auto split: option.splits sum.splits dest: fix_members_error)
    qed
  qed
qed

lemma initialize1_requires_values:
  assumes "has_unset sd"
    and "flow_direction blk \<noteq> None" and "length_domain blk \<noteq> None" and "properties blk \<noteq> None"
  shows "\<exists>sd'. initialize1 blk env sd None hold_state = ([], sd', Inl PyException)"
  using fix_source_unset [OF assms(1)] assms(2-4)
  by (auto simp add: initialize1_def)

lemma initialize1_unset_example:
  "fst (initialize1 cv1_ready env_ok sd_unset None True) = []
   \<and> snd (snd (initialize1 cv1_ready env_ok sd_unset None True)) = Inl PyException"
  by (simp add: initialize1_def cv1_ready_def sd_unset_def)

subsection \<open>Evaluation of the examples\<close>

text \<open>
  The definitions that the evaluation of a balance method on an example unfolds.
\<close>

lemmas example_defs =
  cv0_ready_def cv0_steady_def cv1_ready_def pp_example_def rp_example_def
  sbc_example_def rbc_example_def

lemmas eval_defs =
  and_then_def Let_def setattr_def hasattr_def add_constraint_def add_expression_def
  add_var_def add_derivative_var_def add_phase_fractions0_def add_phase_fractions1_def
  k_t_def k_tn_def k_tpj_def k_tx_def k_txn_def k_txpj_def List.product_def
  rate_idx_def equilibrium_idx_def rxn_rate_conv_def
  accumulation_term_def kinetic_term_def equilibrium_term_def transfer_term_def
  phase_equilibrium_term_def user_term_mol_def user_term_mass_def

  add_phase_component_balances0_def add_total_component_balances0_def
  add_material_balance_common0_def material_balance_vars0_def material_holdup_step0_def
  material_holdup_calculation0_def stoichiometry_rule0_def
  rate_reaction_step0_def equilibrium_reaction_step0_def material_balances_step0_def
  material_balances_phase0_def material_balances_total0_def
  elemental_flow0_def element_accumulation_term_def element_transfer_term_def user_term_def
  element_balances0_def elemental_holdup_calculation0_def add_total_element_balances0_def
  reaction_heat_def heat_of_reaction_def energy_accumulation_term_def heat_term_def
  work_term_def rxn_heat_term_def enthalpy_balances0_def enthalpy_holdup_calculation0_def
  add_total_enthalpy_balances0_def deltaP_term_def pressure_balance0_def
  add_total_pressure_balances0_def
  area_func_def material_flow_linking_constraints1_def material_balance_vars1_def
  material_holdup_calculation1_def material_holdup_step1_def stoichiometry_rule1_def
  rate_reaction_step1_def equilibrium_reaction_step1_def material_balances_phase1_def
  material_balances_total1_def material_balances_step1_def add_material_balance_common1_def
  add_phase_component_balances1_def add_total_component_balances1_def
  elemental_flow_constraint1_def element_balances1_def elemental_holdup_calculation1_def
  add_total_element_balances1_def enthalpy_flow_linking_constraint1_def
  enthalpy_balances1_def enthalpy_holdup_calculation1_def add_total_enthalpy_balances1_def
  pressure_linking_constraint1_def pressure_balance1_def add_total_pressure_balances1_def

subsection \<open>What the balance methods write\<close>

text \<open>
  The rules of \<open>writes\<close>: a step that assigns one attribute, steps in sequence, a step
  under a condition, and the same for the outcome of the stages that are chained with
  \<open>and_then\<close>. A failing stage writes nothing that a caller sees returned.
\<close>

lemma writes_refl: "writes G {} {} s s"
  unfolding writes_def by (rule exI [of _ Map.empty]) simp

lemma writes_setattr: "G n c \<Longrightarrow> writes G {n} {n} s (setattr s n c)"
  unfolding writes_def setattr_def by (rule exI [of _ "[n \<mapsto> c]"]) simp

lemma writes_add_var: "G n (Var i v) \<Longrightarrow> writes G {n} {n} s (add_var s n i v)"
  unfolding add_var_def by (rule writes_setattr)

lemma writes_trans:
  assumes "writes G L U s s'" and "writes G L' U' s' s''"
  shows "writes G (L \<union> L') (U \<union> U') s s''"
proof -
  from assms(1) obtain m where m: "s' = s\<lparr>attrs := attrs s ++ m\<rparr>" "L \<subseteq> dom m" "dom m \<subseteq> U"
      "\<forall>n c. m n = Some c \<longrightarrow> G n c"
    unfolding writes_def by blast
  from assms(2) obtain m' where m': "s'' = s'\<lparr>attrs := attrs s' ++ m'\<rparr>" "L' \<subseteq> dom m'"
      "dom m' \<subseteq> U'" "\<forall>n c. m' n = Some c \<longrightarrow> G n c"
    unfolding writes_def by blast
  have "s'' = s\<lparr>attrs := attrs s ++ (m ++ m')\<rparr>" using m(1) m'(1) by simp
  moreover have "L \<union> L' \<subseteq> dom (m ++ m')" using m(2) m'(2) by auto
  moreover have "dom (m ++ m') \<subseteq> U \<union> U'" using m(3) m'(3) by auto
  moreover have "\<forall>n c. (m ++ m') n = Some c \<longrightarrow> G n c" using m(4) m'(4) by auto
  ultimately show ?thesis unfolding writes_def by blast
qed

lemma writes_if:
  "(c \<Longrightarrow> writes G L U s a) \<Longrightarrow>
   writes G (if c then L else {}) (if c then U else {}) s (if c then a else s)"
  by (simp add: writes_refl)

lemma writes_weaken:
  "writes G L U s s' \<Longrightarrow> L' \<subseteq> L \<Longrightarrow> U \<subseteq> U' \<Longrightarrow> writes G L' U' s s'"
  unfolding writes_def by blast

lemma writes_if_upper:
  "(c \<Longrightarrow> writes G L U s a) \<Longrightarrow> writes G {} U s (if c then a else s)"
  by (cases c) (auto intro: writes_weaken writes_refl)

lemma writes_at:
  "writes G L U s s' \<Longrightarrow>
   (n \<in> L \<longrightarrow> (\<exists>c. attrs s' n = Some c \<and> G n c)) \<and> (n \<notin> U \<longrightarrow> attrs s' n = attrs s n)"
proof -
  assume "writes G L U s s'"
  then obtain m where m: "s' = s\<lparr>attrs := attrs s ++ m\<rparr>" "L \<subseteq> dom m" "dom m \<subseteq> U"
      "\<forall>n c. m n = Some c \<longrightarrow> G n c"
    unfolding writes_def by blast
  have a: "n \<in> L \<longrightarrow> (\<exists>c. attrs s' n = Some c \<and> G n c)"
  proof
    assume "n \<in> L"
    then obtain c where "m n = Some c" using m(2) by auto
    then show "\<exists>c. attrs s' n = Some c \<and> G n c" using m(1) m(4) by (simp add: map_add_Some_iff)
  qed
  have b: "n \<notin> U \<longrightarrow> attrs s' n = attrs s n"
  proof
    assume "n \<notin> U"
    then have "m n = None" using m(3) by auto
    then show "attrs s' n = attrs s n" using m(1) by (simp add: map_add_def)
  qed
  from a b show ?thesis by simp
qed


lemma out_Inr: "writes G L U s s' \<Longrightarrow> writes_out G L U s (Inr s')"
  by (simp add: writes_out_def)

lemma out_bind:
  assumes "writes_out G L U s r" and "\<And>s'. writes_out G L' U' s' (f s')"
  shows "writes_out G (L \<union> L') (U \<union> U') s (and_then r f)"
proof (cases r)
  case (Inl x)
  then show ?thesis by (simp add: writes_out_def and_then_def)
next
  case (Inr s')
  then have a: "writes G L U s s'" using assms(1) by (simp add: writes_out_def)
  show ?thesis
  proof (cases "f s'")
    case (Inl y)
    then show ?thesis using Inr by (simp add: writes_out_def and_then_def)
  next
    case (Inr s'')
    then have "writes G L' U' s' s''" using assms(2) [of s'] by (simp add: writes_out_def)
    from writes_trans [OF a this] show ?thesis
      using Inr \<open>r = Inr s'\<close> by (simp add: writes_out_def and_then_def)
  qed
qed

lemma out_if:
  "(c \<Longrightarrow> writes_out G L U s a) \<Longrightarrow>
   writes_out G (if c then L else {}) (if c then U else {}) s (if c then a else Inr s)"
  by (simp add: writes_out_def writes_refl)

lemma out_guard:
  "(\<not> c \<Longrightarrow> writes_out G L U s b) \<Longrightarrow> writes_out G L U s (if c then Inl x else b)"
  by (simp add: writes_out_def)



lemma out_constraint:
  "(\<And>rows. build_rows idx kf rule = Inr rows \<Longrightarrow> G n (Constraint rows)) \<Longrightarrow>
   writes_out G {n} {n} s (add_constraint s n idx kf rule)"
  by (auto simp add: writes_out_def add_constraint_def intro: writes_setattr split: sum.splits)

lemma out_expression:
  "(\<And>rows. G n (Expression rows)) \<Longrightarrow>
   writes_out G {n} {n} s (add_expression s n idx kf rule)"
  by (auto simp add: writes_out_def add_expression_def intro: writes_setattr split: sum.splits)

lemma out_derivative_var:
  "G n (DerivativeVar v w) \<Longrightarrow> writes_out G {n} {n} s (add_derivative_var s n v w)"
  by (auto simp add: writes_out_def add_derivative_var_def intro: writes_setattr
      split: option.splits)

lemma writes_phase_fractions0:
  assumes "\<And>c. G ''phase_fraction'' c" and "\<And>c. G ''sum_of_phase_fractions'' c"
  shows "writes G {''phase_fraction''} {''phase_fraction'', ''sum_of_phase_fractions''} s
           (add_phase_fractions0 s)"
proof (cases "length (phase_list (property_package s)) > 1")
  case True
  have "writes G ({''phase_fraction''} \<union> {''sum_of_phase_fractions''})
          ({''phase_fraction''} \<union> {''sum_of_phase_fractions''}) s (add_phase_fractions0 s)"
    using True unfolding add_phase_fractions0_def Let_def
    by (simp only: if_True) (rule writes_trans [OF writes_add_var writes_setattr]; rule assms)
  then show ?thesis by (rule writes_weaken) auto
next
  case False
  have "writes G {''phase_fraction''} {''phase_fraction''} s (add_phase_fractions0 s)"
    using False unfolding add_phase_fractions0_def Let_def
    by (simp only: if_False) (intro writes_setattr assms)
  then show ?thesis by (rule writes_weaken) auto
qed


lemma writes_ensure_phase_fractions0:
  assumes "\<And>c. G ''phase_fraction'' c" and "\<And>c. G ''sum_of_phase_fractions'' c"
  shows "writes G {} {''phase_fraction'', ''sum_of_phase_fractions''} s
           (if \<not> hasattr s ''phase_fraction'' then add_phase_fractions0 s else s)"
proof (cases "hasattr s ''phase_fraction''")
  case True
  then show ?thesis by (auto intro: writes_weaken [OF writes_refl])
next
  case False
  then show ?thesis by (auto intro: writes_weaken [OF writes_phase_fractions0] assms)
qed




text \<open>A property of the equations of every rule holds of every row that is built.\<close>

lemma build_rows_all:
  assumes "build_rows idx kf rule = Inr rows"
    and "\<And>i l r. rule i = Inr (Eqn l r) \<Longrightarrow> P l r"
  shows "list_all (\<lambda>row. P (fst (snd row)) (snd (snd row))) rows"
  using assms(1)
proof (induction idx arbitrary: rows)
  case Nil
  then show ?case by simp
next
  case (Cons i js)
  then show ?case
    by (auto split: sum.splits rule_result.splits intro: assms(2))
qed
















lemma enthalpy0_writes:
  assumes other: "\<And>n c. n \<noteq> ''scaling_factor_energy'' \<Longrightarrow> n \<noteq> ''enthalpy_balances'' \<Longrightarrow> G n c"
    and sf: "G ''scaling_factor_energy'' (Param (1 / 1000000))"
    and rows: "\<And>rows b. build_rows (time s) k_t (enthalpy_balances0 b hor ht wt ct) = Inr rows
                 \<Longrightarrow> G ''enthalpy_balances'' (Constraint rows)"
  shows "writes_out G
     (energy_names (has_holdup s) (dynamic s) hor ht wt {})
     (energy_names (has_holdup s) (dynamic s) hor ht wt
        {''phase_fraction'', ''sum_of_phase_fractions''})
     s (add_total_enthalpy_balances0 s hor ht wt ct)"
  unfolding add_total_enthalpy_balances0_def Let_def
  apply (intro out_guard out_bind out_if out_Inr writes_if writes_add_var writes_setattr
      out_derivative_var out_expression out_constraint writes_ensure_phase_fractions0)
  apply (simp_all add: other sf)
  apply (erule rows)
  done


lemma pressure0_writes:
  assumes other: "\<And>n c. n \<noteq> ''scaling_factor_pressure'' \<Longrightarrow> n \<noteq> ''pressure_balance'' \<Longrightarrow> G n c"
    and sf: "G ''scaling_factor_pressure'' (Param (1 / 10000))"
    and rows: "\<And>rows b. build_rows (time s) k_t (pressure_balance0 b hpc ct) = Inr rows
                 \<Longrightarrow> G ''pressure_balance'' (Constraint rows)"
  shows "writes_out G (pressure_names hpc) (pressure_names hpc)
     s (add_total_pressure_balances0 s hpc ct)"
  unfolding add_total_pressure_balances0_def Let_def
  apply (intro out_bind out_Inr writes_if writes_add_var writes_setattr out_constraint)
  apply (simp_all add: other sf)
  apply (erule rows)
  done


lemma writes_of_out: "writes_out G L U s r \<Longrightarrow> r = Inr s' \<Longrightarrow> writes G L U s s'"
  by (simp add: writes_out_def)









subsection \<open>Term variables and the flags of a call\<close>





subsection \<open>Scaling of the enthalpy and pressure balances\<close>

text \<open>Every equation the two rules return has all its additive terms scaled.\<close>

lemma enthalpy_rule_scaled:
  "enthalpy_balances0 b hor ht wt ct t = Inr (Eqn l r) \<Longrightarrow>
   list_all (scaled_by (ERef ''scaling_factor_energy'' []))
     (additive_terms l @ additive_terms r)"
  by (auto simp add: enthalpy_balances0_def Let_def split: if_splits)

lemma pressure_rule_scaled:
  "pressure_balance0 b hpc ct t = Inr (Eqn l r) \<Longrightarrow>
   l = ELit 0 \<and> list_all (scaled_by (ERef ''scaling_factor_pressure'' [])) (additive_terms r)"
  by (auto simp add: pressure_balance0_def Let_def split: if_splits)

lemma enthalpy_rows_scaled:
  assumes "build_rows ts k_t (enthalpy_balances0 b hor ht wt ct) = Inr rows"
  shows "scaled_rows False (ERef ''scaling_factor_energy'' []) rows"
  unfolding scaled_rows_def if_False
  by (rule build_rows_all [OF assms]) (rule enthalpy_rule_scaled)

lemma pressure_rows_scaled:
  assumes "build_rows ts k_t (pressure_balance0 b hpc ct) = Inr rows"
  shows "scaled_rows True (ERef ''scaling_factor_pressure'' []) rows"
  unfolding scaled_rows_def if_True
  by (rule build_rows_all [OF assms]) (rule pressure_rule_scaled)

lemma scaled_balance_at:
  assumes "writes (scaled_balance sfn cn d z) L U s s'" and "sfn \<in> L" and "cn \<in> L"
  shows "attrs s' sfn = Some (Param d)
       \<and> (\<exists>rows. attrs s' cn = Some (Constraint rows) \<and> scaled_rows z (ERef sfn []) rows)"
proof -
  from writes_at [OF assms(1), of sfn] assms(2)
  have a: "attrs s' sfn = Some (Param d)" by (auto simp add: scaled_balance_def)
  from writes_at [OF assms(1), of cn] assms(3)
  obtain c where c: "attrs s' cn = Some c" "scaled_balance sfn cn d z cn c" by auto
  from c(2) have "\<exists>rows. c = Constraint rows \<and> scaled_rows z (ERef sfn []) rows"
    by (cases c) (simp_all add: scaled_balance_def)
  with a c(1) show ?thesis by auto
qed


text \<open>
  C6. In the 0-D control volume, when \<^verbatim>\<open>add_total_enthalpy_balances\<close> returns, the
  control volume has the parameter \<^verbatim>\<open>scaling_factor_energy\<close> with default \<open>1e-6\<close>, and
  in every equation of the constraint \<^verbatim>\<open>enthalpy_balances\<close> every additive term of both
  sides, the accumulation term on the left included, is a product whose second factor is
  that parameter. When \<^verbatim>\<open>add_total_pressure_balances\<close> returns, the control volume has
  the parameter \<^verbatim>\<open>scaling_factor_pressure\<close> with default \<open>1e-4\<close>, and every equation of
  \<^verbatim>\<open>pressure_balance\<close> has the literal \<open>0\<close> on the left and on the right only terms
  multiplied by that parameter. The same holds of each equation the two rules return.
  Both parameters are created with \<^verbatim>\<open>mutable=True\<close>.
\<close>

theorem scaled_balances:
  "(add_total_enthalpy_balances0 s hor ht wt ct = Inr s' \<longrightarrow>
      attrs s' ''scaling_factor_energy'' = Some (Param (1 / 1000000))
      \<and> (\<exists>rows. attrs s' ''enthalpy_balances'' = Some (Constraint rows)
             \<and> scaled_rows False (ERef ''scaling_factor_energy'' []) rows))
   \<and> (add_total_pressure_balances0 s hpc cp = Inr s' \<longrightarrow>
      attrs s' ''scaling_factor_pressure'' = Some (Param (1 / 10000))
      \<and> (\<exists>rows. attrs s' ''pressure_balance'' = Some (Constraint rows)
             \<and> scaled_rows True (ERef ''scaling_factor_pressure'' []) rows))
   \<and> (enthalpy_balances0 s hor ht wt ct t = Inr (Eqn l r) \<longrightarrow>
      list_all (scaled_by (ERef ''scaling_factor_energy'' []))
        (additive_terms l @ additive_terms r))
   \<and> (pressure_balance0 s hpc cp t = Inr (Eqn l r) \<longrightarrow>
      l = ELit 0
      \<and> list_all (scaled_by (ERef ''scaling_factor_pressure'' [])) (additive_terms r))"
proof (intro conjI impI)
  assume e: "add_total_enthalpy_balances0 s hor ht wt ct = Inr s'"
  have "writes_out
          (scaled_balance ''scaling_factor_energy'' ''enthalpy_balances'' (1 / 1000000) False)
          (energy_names (has_holdup s) (dynamic s) hor ht wt {})
          (energy_names (has_holdup s) (dynamic s) hor ht wt
             {''phase_fraction'', ''sum_of_phase_fractions''})
          s (add_total_enthalpy_balances0 s hor ht wt ct)"
    by (rule enthalpy0_writes) (simp_all add: scaled_balance_def enthalpy_rows_scaled)
  from scaled_balance_at [OF writes_of_out [OF this e]]
  show "attrs s' ''scaling_factor_energy'' = Some (Param (1 / 1000000))"
    and "\<exists>rows. attrs s' ''enthalpy_balances'' = Some (Constraint rows)
             \<and> scaled_rows False (ERef ''scaling_factor_energy'' []) rows"
    by simp_all
next
  assume e: "add_total_pressure_balances0 s hpc cp = Inr s'"
  have "writes_out
          (scaled_balance ''scaling_factor_pressure'' ''pressure_balance'' (1 / 10000) True)
          (pressure_names hpc) (pressure_names hpc)
          s (add_total_pressure_balances0 s hpc cp)"
    by (rule pressure0_writes) (simp_all add: scaled_balance_def pressure_rows_scaled)
  from scaled_balance_at [OF writes_of_out [OF this e]]
  show "attrs s' ''scaling_factor_pressure'' = Some (Param (1 / 10000))"
    and "\<exists>rows. attrs s' ''pressure_balance'' = Some (Constraint rows)
             \<and> scaled_rows True (ERef ''scaling_factor_pressure'' []) rows"
    by simp_all
next
  assume "enthalpy_balances0 s hor ht wt ct t = Inr (Eqn l r)"
  then show "list_all (scaled_by (ERef ''scaling_factor_energy'' []))
        (additive_terms l @ additive_terms r)"
    by (rule enthalpy_rule_scaled)
next
  assume p: "pressure_balance0 s hpc cp t = Inr (Eqn l r)"
  from pressure_rule_scaled [OF p] show "l = ELit 0" by simp
  from pressure_rule_scaled [OF p]
  show "list_all (scaled_by (ERef ''scaling_factor_pressure'' [])) (additive_terms r)" by simp
qed

text \<open>
  The theorem on the example control volume, with heat transfer and with a pressure
  change: both calls return, each constraint has an equation, the enthalpy equation has
  seven additive terms and the pressure equation four.
\<close>

theorem scaled_balances_witness:
  "(let r = add_total_enthalpy_balances0 cv0_ready False True False None in
      \<not> isl r
      \<and> attrs (projr r) ''scaling_factor_energy'' = Some (Param (1 / 1000000))
      \<and> (\<exists>rows. attrs (projr r) ''enthalpy_balances'' = Some (Constraint rows)
             \<and> rows \<noteq> []
             \<and> scaled_rows False (ERef ''scaling_factor_energy'' []) rows))
   \<and> (let r = add_total_pressure_balances0 cv0_ready True None in
      \<not> isl r
      \<and> attrs (projr r) ''scaling_factor_pressure'' = Some (Param (1 / 10000))
      \<and> (\<exists>rows. attrs (projr r) ''pressure_balance'' = Some (Constraint rows)
             \<and> rows \<noteq> []
             \<and> scaled_rows True (ERef ''scaling_factor_pressure'' []) rows))
   \<and> (\<exists>l r. enthalpy_balances0 cv0_ready False True False None 0 = Inr (Eqn l r)
          \<and> length (additive_terms l @ additive_terms r) = 7
          \<and> list_all (scaled_by (ERef ''scaling_factor_energy'' []))
                (additive_terms l @ additive_terms r))
   \<and> (\<exists>r. pressure_balance0 cv0_ready True None 0 = Inr (Eqn (ELit 0) r)
          \<and> length (additive_terms r) = 4
          \<and> list_all (scaled_by (ERef ''scaling_factor_pressure'' [])) (additive_terms r))"
proof -
  let ?h = "add_total_enthalpy_balances0 cv0_ready False True False None"
  let ?p = "add_total_pressure_balances0 cv0_ready True None"
  let ?he = "enthalpy_balances0 cv0_ready False True False None 0"
  let ?pe = "pressure_balance0 cv0_ready True None 0"
  have h: "\<not> isl ?h" by (simp add: eval_defs example_defs)
  have p: "\<not> isl ?p" by (simp add: eval_defs example_defs)
  have hn: "attrs (projr ?h) ''enthalpy_balances'' \<noteq> Some (Constraint [])"
    by (simp add: eval_defs example_defs)
  have pn: "attrs (projr ?p) ''pressure_balance'' \<noteq> Some (Constraint [])"
    by (simp add: eval_defs example_defs)
  have "\<exists>l r. ?he = Inr (Eqn l r) \<and> length (additive_terms l @ additive_terms r) = 7"
    by (simp add: eval_defs example_defs)
  then obtain l r where he: "?he = Inr (Eqn l r)"
      "length (additive_terms l @ additive_terms r) = 7"
    by blast
  have "\<exists>l r. ?pe = Inr (Eqn l r) \<and> length (additive_terms r) = 4"
    by (simp add: eval_defs example_defs)
  then obtain l' r' where pe: "?pe = Inr (Eqn l' r')" "length (additive_terms r') = 4"
    by blast
  note c = sum.collapse(2) [symmetric]
  note s1 = scaled_balances [where s = cv0_ready and hor = False and ht = True and wt = False
      and ct = None and s' = "projr ?h", THEN conjunct1, THEN mp, OF c [OF h]]
  note s2 = scaled_balances [where s = cv0_ready and hpc = True and cp = None
      and s' = "projr ?p", THEN conjunct2, THEN conjunct1, THEN mp, OF c [OF p]]
  note s3 = scaled_balances [where s = cv0_ready and hor = False and ht = True and wt = False
      and ct = None and t = 0 and l = l and r = r,
      THEN conjunct2, THEN conjunct2, THEN conjunct1, THEN mp, OF he(1)]
  note s4 = scaled_balances [where s = cv0_ready and hpc = True and cp = None
      and t = 0 and l = l' and r = r',
      THEN conjunct2, THEN conjunct2, THEN conjunct2, THEN mp, OF pe(1)]
  from s1 hn have a: "\<exists>rows. attrs (projr ?h) ''enthalpy_balances'' = Some (Constraint rows)
             \<and> rows \<noteq> []
             \<and> scaled_rows False (ERef ''scaling_factor_energy'' []) rows"
    by auto
  from s2 pn have b: "\<exists>rows. attrs (projr ?p) ''pressure_balance'' = Some (Constraint rows)
             \<and> rows \<noteq> []
             \<and> scaled_rows True (ERef ''scaling_factor_pressure'' []) rows"
    by auto
  from s3 he have c: "\<exists>l r. ?he = Inr (Eqn l r)
          \<and> length (additive_terms l @ additive_terms r) = 7
          \<and> list_all (scaled_by (ERef ''scaling_factor_energy'' []))
                (additive_terms l @ additive_terms r)"
    by blast
  from s4 pe have d: "\<exists>r. ?pe = Inr (Eqn (ELit 0) r)
          \<and> length (additive_terms r) = 4
          \<and> list_all (scaled_by (ERef ''scaling_factor_pressure'' [])) (additive_terms r)"
    by blast
  from h p s1 s2 a b c d show ?thesis
    unfolding Let_def by blast
qed

subsection \<open>The boundary point of the 1-D balances\<close>













subsection \<open>Phase fractions\<close>

text \<open>The value of a Python \<^verbatim>\<open>sum\<close> is the sum of the values of its items.\<close>

lemma foldl_EAdd_eval:
  "eval \<rho> \<xi> (foldl EAdd a es) = eval \<rho> \<xi> a + sum_list (map (eval \<rho> \<xi>) es)"
  by (induction es arbitrary: a) simp_all

lemma eval_py_sum: "eval \<rho> \<xi> (py_sum es) = sum_list (map (eval \<rho> \<xi>) es)"
  by (simp add: py_sum_def foldl_EAdd_eval)


text \<open>
  C4. On both variants, when the property package declares exactly one phase,
  \<^verbatim>\<open>_add_phase_fractions\<close> changes the control volume only by attaching
  \<^verbatim>\<open>phase_fraction\<close> as an expression whose value is the constant \<open>1\<close> at every domain
  point and phase: no variable and no constraint is added. When the package declares
  more than one phase, it attaches exactly the variable \<^verbatim>\<open>phase_fraction\<close>, indexed by
  domain point and phase and initialized to \<open>1 / num_phases\<close>, and the constraint
  \<^verbatim>\<open>sum_of_phase_fractions\<close> with one equation per domain point, which holds exactly
  when the phase fractions at that point sum to \<open>1\<close>. A domain point is a time point in
  the 0-D class and a time point with a point of the length domain in the 1-D class.
\<close>

theorem phase_fraction_subsystem:
  "(length (phase_list (property_package s0)) = 1 \<longrightarrow>
      add_phase_fractions0 s0 =
        s0\<lparr>attrs := (attrs s0)(''phase_fraction'' \<mapsto>
          Expression (map (\<lambda>i. (k_tn i, ELit 1))
            (List.product (time s0) (phase_list (property_package s0)))))\<rparr>)
   \<and> (length (phase_list (property_package s1)) = 1 \<longrightarrow>
      add_phase_fractions1 s1 ld =
        s1\<lparr>attrs := (attrs s1)(''phase_fraction'' \<mapsto>
          Expression (map (\<lambda>i. (k_txn i, ELit 1))
            (List.product (time s1) (List.product ld (phase_list (property_package s1))))))\<rparr>)
   \<and> (length (phase_list (property_package s0)) > 1 \<longrightarrow>
      add_phase_fractions0 s0 =
        s0\<lparr>attrs := (attrs s0)(''phase_fraction'' \<mapsto>
            Var (map k_tn (List.product (time s0) (phase_list (property_package s0))))
                (Some (1 / real (length (phase_list (property_package s0))))),
          ''sum_of_phase_fractions'' \<mapsto>
            Constraint (map (\<lambda>t. (k_t t, ELit 1,
                py_sum (map (\<lambda>p. ERef ''phase_fraction'' [Pt t, Nm p])
                          (phase_list (property_package s0)))))
              (time s0)))\<rparr>
      \<and> (\<forall>t. (eval \<rho> \<xi> (ELit 1) =
               eval \<rho> \<xi> (py_sum (map (\<lambda>p. ERef ''phase_fraction'' [Pt t, Nm p])
                                   (phase_list (property_package s0)))))
              = ((\<Sum>p\<leftarrow>phase_list (property_package s0). \<rho> ''phase_fraction'' [Pt t, Nm p]) = 1)))
   \<and> (length (phase_list (property_package s1)) > 1 \<longrightarrow>
      add_phase_fractions1 s1 ld =
        s1\<lparr>attrs := (attrs s1)(''phase_fraction'' \<mapsto>
            Var (map k_txn (List.product (time s1)
                              (List.product ld (phase_list (property_package s1)))))
                (Some (1 / real (length (phase_list (property_package s1))))),
          ''sum_of_phase_fractions'' \<mapsto>
            Constraint (map (\<lambda>i. (k_tx i, ELit 1,
                py_sum (map (\<lambda>p. ERef ''phase_fraction'' [Pt (fst i), Pt (snd i), Nm p])
                          (phase_list (property_package s1)))))
              (List.product (time s1) ld)))\<rparr>
      \<and> (\<forall>t x. (eval \<rho> \<xi> (ELit 1) =
               eval \<rho> \<xi> (py_sum (map (\<lambda>p. ERef ''phase_fraction'' [Pt t, Pt x, Nm p])
                                   (phase_list (property_package s1)))))
              = ((\<Sum>p\<leftarrow>phase_list (property_package s1).
                    \<rho> ''phase_fraction'' [Pt t, Pt x, Nm p]) = 1)))"
  by (auto simp add: add_phase_fractions0_def add_phase_fractions1_def Let_def setattr_def
      add_var_def eval_py_sum comp_def)


text \<open>
  The theorem on the example control volumes, with the one-phase package and with the
  two-phase package.
\<close>

theorem phase_fraction_subsystem_witness:
  "length (phase_list (property_package cv0_single)) = 1
   \<and> length (phase_list (property_package cv1_single)) = 1
   \<and> length (phase_list (property_package cv0_ready)) = 2
   \<and> length (phase_list (property_package cv1_ready)) = 2
   \<and> attrs (add_phase_fractions0 cv0_single) ''phase_fraction''
       = Some (Expression [([Pt 0, Nm ''Liq''], ELit 1)])
   \<and> attrs (add_phase_fractions0 cv0_single) ''sum_of_phase_fractions'' = None
   \<and> attrs (add_phase_fractions1 cv1_single [0, 1]) ''phase_fraction''
       = Some (Expression [([Pt 0, Pt 0, Nm ''Liq''], ELit 1),
                           ([Pt 0, Pt 1, Nm ''Liq''], ELit 1)])
   \<and> attrs (add_phase_fractions1 cv1_single [0, 1]) ''sum_of_phase_fractions'' = None
   \<and> attrs (add_phase_fractions0 cv0_ready) ''phase_fraction''
       = Some (Var [[Pt 0, Nm ''Liq''], [Pt 0, Nm ''Vap'']] (Some (1 / 2)))
   \<and> attrs (add_phase_fractions0 cv0_ready) ''sum_of_phase_fractions''
       = Some (Constraint [([Pt 0], ELit 1,
           EAdd (EAdd (ELit 0) (ERef ''phase_fraction'' [Pt 0, Nm ''Liq'']))
                (ERef ''phase_fraction'' [Pt 0, Nm ''Vap'']))])
   \<and> attrs (add_phase_fractions1 cv1_ready [0, 1]) ''phase_fraction''
       = Some (Var [[Pt 0, Pt 0, Nm ''Liq''], [Pt 0, Pt 0, Nm ''Vap''],
                    [Pt 0, Pt 1, Nm ''Liq''], [Pt 0, Pt 1, Nm ''Vap'']] (Some (1 / 2)))
   \<and> attrs (add_phase_fractions1 cv1_ready [0, 1]) ''sum_of_phase_fractions''
       = Some (Constraint [([Pt 0, Pt 0], ELit 1,
           EAdd (EAdd (ELit 0) (ERef ''phase_fraction'' [Pt 0, Pt 0, Nm ''Liq'']))
                (ERef ''phase_fraction'' [Pt 0, Pt 0, Nm ''Vap''])),
                           ([Pt 0, Pt 1], ELit 1,
           EAdd (EAdd (ELit 0) (ERef ''phase_fraction'' [Pt 0, Pt 1, Nm ''Liq'']))
                (ERef ''phase_fraction'' [Pt 0, Pt 1, Nm ''Vap'']))])"
proof -
  have a: "length (phase_list (property_package cv0_single)) = 1"
      "length (phase_list (property_package cv1_single)) = 1"
    by (simp_all add: cv0_single_def cv1_single_def)
  have b: "length (phase_list (property_package cv0_ready)) = 2"
      "length (phase_list (property_package cv1_ready)) = 2"
    by (simp_all add: cv0_ready_def cv1_ready_def pp_example_def)
  show ?thesis
    using a b
      phase_fraction_subsystem [of cv0_single cv1_single "[0, 1]"]
      phase_fraction_subsystem [of cv0_ready cv1_ready "[0, 1]"]
    by (simp add: cv0_single_def cv1_single_def cv0_ready_def cv1_ready_def pp_example_def
        k_t_def k_tn_def k_tx_def k_txn_def py_sum_def List.product_def)
qed

subsection \<open>The phase-equilibrium generation term\<close>

text \<open>
  The dictionary \<^verbatim>\<open>sd\<close> after the loop holds the signed indicator of every reaction
  index, and the items of the sum are the products with these entries.
\<close>

lemma sd_entry_indicator: "real_of_int (sd_entry pel r p j) = signed_indicator pel r p j"
  by (auto simp add: sd_entry_def signed_indicator_def split: option.splits)

lemma sd_loop_result:
  "set rs \<subseteq> dom pel \<Longrightarrow>
   \<exists>sd'. sd_loop pel p j rs sd = Inr sd'
        \<and> (\<forall>r. sd' r = (if r \<in> set rs then Some (sd_entry pel r p j) else sd r))"
proof (induction rs arbitrary: sd)
  case Nil
  then show ?case by simp
next
  case (Cons r rs)
  from Cons.prems obtain e where e: "pel r = Some e" by auto
  from Cons.prems have "set rs \<subseteq> dom pel" by simp
  from Cons.IH [OF this, of "sd(r \<mapsto> sd_entry pel r p j)"]
  obtain sd' where sd': "sd_loop pel p j rs (sd(r \<mapsto> sd_entry pel r p j)) = Inr sd'"
      "\<forall>q. sd' q = (if q \<in> set rs then Some (sd_entry pel q p j)
                     else (sd(r \<mapsto> sd_entry pel r p j)) q)"
    by blast
  have "sd_loop pel p j (r # rs) sd = sd_loop pel p j rs (sd(r \<mapsto> sd_entry pel r p j))"
    using e by (simp add: sd_entry_def)
  then show ?case using sd' by auto
qed

lemma pe_items_result:
  "\<forall>r \<in> set rs. sd r = Some (f r) \<Longrightarrow>
   pe_items pt sd rs =
     Inr (map (\<lambda>r. EMul (ERef ''phase_equilibrium_generation'' (pt @ [Nm r]))
                         (ELit (of_int (f r)))) rs)"
  by (induction rs) auto


text \<open>
  C5. In the component-phase material balances with phase equilibrium enabled, on a
  property package whose \<^verbatim>\<open>phase_equilibrium_list\<close> has an entry for every index of
  \<^verbatim>\<open>phase_equilibrium_idx\<close>, the phase-equilibrium term for phase \<open>p\<close> and component \<open>j\<close>
  at a domain point is an expression whose value is the sum, over all phase-equilibrium
  reaction indices \<open>r\<close>, of \<^verbatim>\<open>phase_equilibrium_generation\<close> at the point and \<open>r\<close> times the
  signed indicator of \<open>r\<close>: \<open>+1\<close> when the target component of \<open>r\<close> is \<open>j\<close> and \<open>p\<close> is the
  first phase of its pair, \<open>-1\<close> when the target is \<open>j\<close> and \<open>p\<close> is the second phase, and
  \<open>0\<close> otherwise. The domain point is \<open>[t]\<close> in the 0-D class and \<open>[t, x]\<close> in the 1-D
  class.
\<close>

theorem phase_equilibrium_sum:
  assumes "phase_equilibrium_idx pp = Some idx"
    and "set idx \<subseteq> dom (phase_equilibrium_list pp)"
  shows "\<exists>e. phase_equilibrium_term pp True componentPhase pt p j = Inr e
           \<and> eval \<rho> \<xi> e =
               (\<Sum>r\<leftarrow>idx. \<rho> ''phase_equilibrium_generation'' (pt @ [Nm r])
                            * signed_indicator (phase_equilibrium_list pp) r p j)"
proof -
  from sd_loop_result [OF assms(2), of p j Map.empty]
  obtain sd' where sd': "sd_loop (phase_equilibrium_list pp) p j idx Map.empty = Inr sd'"
      "\<forall>r. sd' r = (if r \<in> set idx then Some (sd_entry (phase_equilibrium_list pp) r p j)
                     else None)"
    by auto
  have items: "pe_items pt sd' idx =
      Inr (map (\<lambda>r. EMul (ERef ''phase_equilibrium_generation'' (pt @ [Nm r]))
                          (ELit (of_int (sd_entry (phase_equilibrium_list pp) r p j)))) idx)"
    by (rule pe_items_result) (simp add: sd'(2))
  show ?thesis
    using assms(1) sd'(1) items
    by (simp add: phase_equilibrium_term_def eval_py_sum comp_def sd_entry_indicator)
qed


text \<open>
  The theorem on the example package, whose reactions move \<open>a\<close> and \<open>b\<close> from the liquid
  to the vapour: the term for the vapour and \<open>a\<close>.
\<close>

theorem phase_equilibrium_sum_witness:
  "phase_equilibrium_idx pp_example = Some [''e1'', ''e2'']
   \<and> set [''e1'', ''e2''] \<subseteq> dom (phase_equilibrium_list pp_example)
   \<and> phase_equilibrium_term pp_example True componentPhase [Pt 0] ''Vap'' ''a'' =
       Inr (EAdd (EAdd (ELit 0)
              (EMul (ERef ''phase_equilibrium_generation'' [Pt 0, Nm ''e1'']) (ELit (- 1))))
              (EMul (ERef ''phase_equilibrium_generation'' [Pt 0, Nm ''e2'']) (ELit 0)))
   \<and> signed_indicator (phase_equilibrium_list pp_example) ''e1'' ''Vap'' ''a'' = - 1
   \<and> signed_indicator (phase_equilibrium_list pp_example) ''e1'' ''Liq'' ''a'' = 1
   \<and> signed_indicator (phase_equilibrium_list pp_example) ''e2'' ''Vap'' ''a'' = 0"
proof -
  have a: "phase_equilibrium_idx pp_example = Some [''e1'', ''e2'']"
    by (simp add: pp_example_def)
  have b: "set [''e1'', ''e2''] \<subseteq> dom (phase_equilibrium_list pp_example)"
    by (simp add: pp_example_def)
  have c: "phase_equilibrium_term pp_example True componentPhase [Pt 0] ''Vap'' ''a'' =
       Inr (EAdd (EAdd (ELit 0)
              (EMul (ERef ''phase_equilibrium_generation'' [Pt 0, Nm ''e1'']) (ELit (- 1))))
              (EMul (ERef ''phase_equilibrium_generation'' [Pt 0, Nm ''e2'']) (ELit 0)))"
    by (simp add: phase_equilibrium_term_def pp_example_def py_sum_def)
  show ?thesis
    using a b c phase_equilibrium_sum [OF a b, of "[Pt 0]" "''Vap''" "''a''"]
    by (simp add: signed_indicator_def pp_example_def)
qed

end
